theory Spec2Isabelle
  imports Main "HOL-Library.AList"
begin

section \<open>Knotify: the pusher registry and its URI codec (src/knotify/pusher.py)\<close>

text \<open>
  The development embeds \<^verbatim>\<open>get_pusher\<close>, \<^verbatim>\<open>register_pusher\<close>, the four pusher classes
  and the module-level registry \<^verbatim>\<open>all_pushers\<close>.

  A Python \<^verbatim>\<open>str\<close> is a \<^typ>\<open>string\<close>: a list of 8-bit characters, read as the UTF-8
  encoding of the Python string. Every delimiter the code looks at is ASCII, and UTF-8 keeps
  ASCII bytes apart from multi-byte characters. What Python computes from Unicode tables
  (the lower case of text outside ASCII, the printed form of a class, two checks of the
  URL parser) is taken from a record of parameters, \<open>library\<close>.
\<close>

subsection \<open>Characters\<close>

definition code :: "char \<Rightarrow> nat" where
  "code c = of_char c"

definition is_upper :: "char \<Rightarrow> bool" where
  "is_upper c = (65 \<le> code c \<and> code c \<le> 90)"

definition is_lower :: "char \<Rightarrow> bool" where
  "is_lower c = (97 \<le> code c \<and> code c \<le> 122)"

definition is_alpha :: "char \<Rightarrow> bool" where
  "is_alpha c = (is_upper c \<or> is_lower c)"

definition is_digit :: "char \<Rightarrow> bool" where
  "is_digit c = (48 \<le> code c \<and> code c \<le> 57)"

definition isascii :: "string \<Rightarrow> bool" where
  "isascii s = list_all (\<lambda>c. code c < 128) s"

definition lower_char :: "char \<Rightarrow> char" where
  "lower_char c = (if is_upper c then char_of (code c + 32) else c)"

text \<open>
  The lower case of ASCII text: \<^verbatim>\<open>str.lower()\<close> on a string of ASCII characters, such as
  a URL scheme. (For any string, see \<open>py_lower\<close> below.)
\<close>

definition lower :: "string \<Rightarrow> string" where
  "lower s = map lower_char s"

subsection \<open>Exceptions\<close>

text \<open>
  The ways a Python call can fail to bind its keyword arguments; each is a \<^verbatim>\<open>TypeError\<close>.
\<close>

datatype call_error =
    unexpected_keyword string
  | missing_argument string
  | multiple_values string

text \<open>
  \<^verbatim>\<open>KnotifyException\<close> is raised with one argument: a message
  (\<^verbatim>\<open>KnotifyException("Invalid url scheme")\<close>) or the exception it wraps
  (\<^verbatim>\<open>KnotifyException(e)\<close>). \<open>OtherException\<close> stands for any further subclass of
  \<^verbatim>\<open>Exception\<close> that the constructor of a class defined elsewhere may raise.
  \<open>ConfigurationError\<close> is the spec's name for the failure of the body builder; it carries
  the name of the missing field.
\<close>

datatype py_exception =
    TypeError call_error
  | ValueError string
  | OtherException string
  | ConfigurationError string
  | KnotifyException kn_args
and kn_args =
    Message string
  | Cause py_exception

subsection \<open>Values, classes and objects\<close>

datatype py_value = PyStr string | PyBool bool | PyInt int

text \<open>
  The four classes of pusher.py, and \<open>Other_class name sub init\<close> for a class defined
  elsewhere: its \<^verbatim>\<open>__name__\<close>, whether it is a subclass of \<^verbatim>\<open>BasePusher\<close>, and whether
  its constructor raises on given keyword arguments.
\<close>

datatype py_class =
    Webhook_class
  | Telegram_class
  | Wechat_class
  | WirePusher_class
  | Other_class string bool "(string \<times> string) list \<Rightarrow> py_exception option"

text \<open>
  Instances of the four classes carry their identity field (\<^verbatim>\<open>url\<close>, \<^verbatim>\<open>token\<close>,
  \<^verbatim>\<open>sckey\<close>, \<^verbatim>\<open>pid\<close>) and \<^verbatim>\<open>show_message\<close>. \<open>Instance c kw\<close> is an instance of a
  class defined elsewhere, built from the keyword arguments \<open>kw\<close>; \<open>Class c\<close> is the class
  object itself.
\<close>

datatype py_object =
    Webhook string py_value
  | Telegram string py_value
  | Wechat string py_value
  | WirePusher string py_value
  | Instance py_class "(string \<times> string) list"
  | Class py_class

text \<open>\<^verbatim>\<open>cls.__name__\<close>\<close>

fun class_name :: "py_class \<Rightarrow> string" where
  "class_name Webhook_class = ''Webhook''"
| "class_name Telegram_class = ''Telegram''"
| "class_name Wechat_class = ''Wechat''"
| "class_name WirePusher_class = ''WirePusher''"
| "class_name (Other_class n sub init) = n"

text \<open>\<^verbatim>\<open>issubclass(cls, BasePusher)\<close>\<close>

fun subclass_BasePusher :: "py_class \<Rightarrow> bool" where
  "subclass_BasePusher (Other_class n sub init) = sub"
| "subclass_BasePusher c = True"

text \<open>
  \<^verbatim>\<open>obj.__class__\<close> of an object that is not itself a class (the class of a class object is
  \<^verbatim>\<open>type\<close>, which the code never registers).
\<close>

fun class_of :: "py_object \<Rightarrow> py_class option" where
  "class_of (Webhook u m) = Some Webhook_class"
| "class_of (Telegram t m) = Some Telegram_class"
| "class_of (Wechat k m) = Some Wechat_class"
| "class_of (WirePusher p m) = Some WirePusher_class"
| "class_of (Instance c kw) = Some c"
| "class_of (Class c) = None"

text \<open>\<^verbatim>\<open>isinstance(obj, BasePusher)\<close>\<close>

definition isinstance_BasePusher :: "py_object \<Rightarrow> bool" where
  "isinstance_BasePusher obj =
     (case class_of obj of None \<Rightarrow> False | Some c \<Rightarrow> subclass_BasePusher c)"

subsection \<open>What the Python runtime contributes\<close>

text \<open>
  Four things are computed by Python from data this development does not hold. They are
  the fields of a record that every function needing them takes as its first argument:
  \<^item> \<open>check_bracketed_host\<close>: \<^verbatim>\<open>urllib.parse._check_bracketed_host\<close>, which asks module
    \<^verbatim>\<open>ipaddress\<close> about the host between brackets; it returns the message of the
    \<^verbatim>\<open>ValueError\<close> it raises, or \<open>None\<close> when it passes;
  \<^item> \<open>checknetloc_nfkc\<close>: the Unicode NFKC test of \<^verbatim>\<open>urllib.parse._checknetloc\<close> on a
    netloc outside ASCII, with the same convention;
  \<^item> \<open>unicode_lower\<close>: \<^verbatim>\<open>str.lower()\<close> on a string that is not all ASCII;
  \<^item> \<open>class_str\<close>: \<^verbatim>\<open>str(cls)\<close>, which prints a class with the module it lives in.
\<close>

record library =
  check_bracketed_host :: "string \<Rightarrow> string option"
  checknetloc_nfkc :: "string \<Rightarrow> string option"
  unicode_lower :: "string \<Rightarrow> string"
  class_str :: "py_class \<Rightarrow> string"

text \<open>
  \<^verbatim>\<open>str.lower()\<close>: on ASCII text the letters A to Z are folded; on other text the result
  comes from the Unicode tables.
\<close>

definition py_lower :: "library \<Rightarrow> string \<Rightarrow> string" where
  "py_lower L s = (if isascii s then lower s else unicode_lower L s)"

text \<open>
  A library for closed examples: its checks pass and its tables change nothing. The
  examples that use it are on ASCII text without brackets, where no field of it is read.
\<close>

definition sample_library :: library where
  "sample_library =
     \<lparr>check_bracketed_host = (\<lambda>host. None), checknetloc_nfkc = (\<lambda>nl. None),
      unicode_lower = (\<lambda>s. s), class_str = class_name\<rparr>"

text \<open>
  Modelled from the spec: \<^verbatim>\<open>get_cls_name\<close> of utils.py, which is not among the sources.
  The spec has a class registered "under its lowercase type name"; the module does the
  same with \<^verbatim>\<open>cls.__name__.lower()\<close> when it fills the registry.
\<close>

definition get_cls_name :: "library \<Rightarrow> py_class \<Rightarrow> string" where
  "get_cls_name L c = py_lower L (class_name c)"

subsection \<open>Dictionaries and keyword arguments\<close>

text \<open>
  A dictionary is a list of pairs with distinct keys, in insertion order.
  \<^verbatim>\<open>d.update(pairs)\<close>: the pairs are inserted in order; a key already present keeps
  its place and takes the new value.
\<close>

definition dict_update :: "(string \<times> 'v) list \<Rightarrow> (string \<times> 'v) list \<Rightarrow> (string \<times> 'v) list" where
  "dict_update d pairs = foldl (\<lambda>d (k, v). AList.update k v d) d pairs"

text \<open>\<^verbatim>\<open>dict(pairs)\<close>\<close>

definition dict :: "(string \<times> 'v) list \<Rightarrow> (string \<times> 'v) list" where
  "dict pairs = dict_update [] pairs"

text \<open>
  Binding \<^verbatim>\<open>**kwargs\<close> to a method whose named parameters are \<open>self\<close> and \<open>names\<close>, with no
  \<^verbatim>\<open>**\<close> parameter of its own: the first offending keyword, in the order of the dictionary,
  decides the error.
\<close>

fun bind_keywords :: "string list \<Rightarrow> (string \<times> 'v) list \<Rightarrow> call_error option" where
  "bind_keywords names [] = None"
| "bind_keywords names ((k, v) # kw) =
     (if k = ''self'' then Some (multiple_values k)
      else if k \<notin> set names then Some (unexpected_keyword k)
      else bind_keywords names kw)"

text \<open>
  The four constructors have one shape: \<^verbatim>\<open>__init__(self, field, show_message=True)\<close>
  stores the field. Modelled from the spec: \<^verbatim>\<open>BasePusher.__init__\<close> of base_pusher.py,
  which is not among the sources, keeps the \<^verbatim>\<open>show_message\<close> flag given at construction.
\<close>

definition init_pusher ::
  "string \<Rightarrow> (string \<Rightarrow> py_value \<Rightarrow> py_object) \<Rightarrow> (string \<times> string) list \<Rightarrow> py_exception + py_object" where
  "init_pusher field mk kw =
     (case bind_keywords [field, ''show_message''] kw of
        Some e \<Rightarrow> Inl (TypeError e)
      | None \<Rightarrow>
          (case map_of kw field of
             None \<Rightarrow> Inl (TypeError (missing_argument field))
           | Some x \<Rightarrow>
               Inr (mk x (case map_of kw ''show_message'' of
                            None \<Rightarrow> PyBool True
                          | Some s \<Rightarrow> PyStr s))))"

text \<open>\<^verbatim>\<open>cls(**params)\<close>\<close>

fun construct :: "py_class \<Rightarrow> (string \<times> string) list \<Rightarrow> py_exception + py_object" where
  "construct Webhook_class kw = init_pusher ''url'' Webhook kw"
| "construct Telegram_class kw = init_pusher ''token'' Telegram kw"
| "construct Wechat_class kw = init_pusher ''sckey'' Wechat kw"
| "construct WirePusher_class kw = init_pusher ''pid'' WirePusher kw"
| "construct (Other_class n sub init) kw =
     (case init kw of
        Some e \<Rightarrow> Inl e
      | None \<Rightarrow> Inr (Instance (Other_class n sub init) kw))"

subsection \<open>The library's URL parser\<close>

text \<open>
  \<^verbatim>\<open>urllib.parse.urlparse\<close>, \<^verbatim>\<open>parse_qsl\<close> and \<^verbatim>\<open>unquote_plus\<close> belong to Python's
  standard library; they are embedded as CPython 3.11 defines them. The scheme is made of
  ASCII characters, so its lower case is \<open>lower\<close>.
\<close>

text \<open>
  The fields of the parse result that \<^verbatim>\<open>get_pusher\<close> reads (path, params and fragment
  are never read).
\<close>

record ParseResult =
  scheme :: string
  netloc :: string
  query :: string

text \<open>\<^verbatim>\<open>_WHATWG_C0_CONTROL_OR_SPACE\<close>: the characters 0x00 to 0x20.\<close>

definition c0_control_or_space :: "char \<Rightarrow> bool" where
  "c0_control_or_space c = (code c \<le> 32)"

text \<open>\<^verbatim>\<open>_UNSAFE_URL_BYTES_TO_REMOVE\<close>: tab, carriage return, line feed.\<close>

definition unsafe_url_byte :: "char \<Rightarrow> bool" where
  "unsafe_url_byte c = (code c = 9 \<or> code c = 13 \<or> code c = 10)"

text \<open>\<^verbatim>\<open>scheme_chars\<close>: letters, digits and \<^verbatim>\<open>+-.\<close>\<close>

definition scheme_char :: "char \<Rightarrow> bool" where
  "scheme_char c = (is_alpha c \<or> is_digit c \<or> c = CHR ''+'' \<or> c = CHR ''-'' \<or> c = CHR ''.'')"

text \<open>
  \<^verbatim>\<open>s.partition(c)\<close>: the text before the first \<open>c\<close> and the text after it (empty when
  \<open>c\<close> does not occur). Where \<open>c\<close> occurs this is also \<^verbatim>\<open>s.split(c, 1)\<close>.
\<close>

definition before :: "char \<Rightarrow> string \<Rightarrow> string" where
  "before c s = takeWhile (\<lambda>x. x \<noteq> c) s"

definition after :: "char \<Rightarrow> string \<Rightarrow> string" where
  "after c s = drop 1 (dropWhile (\<lambda>x. x \<noteq> c) s)"

text \<open>
  The scheme: \<^verbatim>\<open>i = url.find(':')\<close>; with \<^verbatim>\<open>i > 0\<close>, an ASCII letter first and only
  scheme characters before the colon, the scheme is that prefix in lower case and the URL
  goes on after the colon.
\<close>

definition split_scheme :: "string \<Rightarrow> string \<times> string" where
  "split_scheme url =
     (if CHR '':'' \<in> set url \<and> before CHR '':'' url \<noteq> [] \<and> is_alpha (hd url)
         \<and> list_all scheme_char (before CHR '':'' url)
      then (lower (before CHR '':'' url), after CHR '':'' url)
      else ([], url))"

text \<open>\<^verbatim>\<open>_splitnetloc(url, 2)\<close>: the netloc ends at the first of \<^verbatim>\<open>/?#\<close>.\<close>

definition netloc_delim :: "char \<Rightarrow> bool" where
  "netloc_delim c = (c = CHR ''/'' \<or> c = CHR ''?'' \<or> c = CHR ''#'')"

definition splitnetloc :: "string \<Rightarrow> string \<times> string" where
  "splitnetloc url =
     (takeWhile (\<lambda>c. \<not> netloc_delim c) (drop 2 url),
      dropWhile (\<lambda>c. \<not> netloc_delim c) (drop 2 url))"

text \<open>\<^verbatim>\<open>netloc.partition('[')[2].partition(']')[0]\<close>\<close>

definition bracketed_host :: "string \<Rightarrow> string" where
  "bracketed_host nl = before CHR '']'' (after CHR ''['' nl)"

text \<open>The netloc of a URL (after the scheme), with the checks on its brackets.\<close>

definition split_authority :: "library \<Rightarrow> string \<Rightarrow> py_exception + string \<times> string" where
  "split_authority L url =
     (if take 2 url = ''//'' then
        (let nl = fst (splitnetloc url); rest = snd (splitnetloc url) in
         if (CHR ''['' \<in> set nl \<and> CHR '']'' \<notin> set nl) \<or> (CHR '']'' \<in> set nl \<and> CHR ''['' \<notin> set nl)
         then Inl (ValueError ''Invalid IPv6 URL'')
         else if CHR ''['' \<in> set nl \<and> CHR '']'' \<in> set nl then
           (case check_bracketed_host L (bracketed_host nl) of
              Some msg \<Rightarrow> Inl (ValueError msg)
            | None \<Rightarrow> Inr (nl, rest))
         else Inr (nl, rest))
      else Inr ([], url))"

text \<open>\<^verbatim>\<open>_checknetloc\<close>\<close>

definition checknetloc :: "library \<Rightarrow> string \<Rightarrow> string option" where
  "checknetloc L nl = (if nl = [] \<or> isascii nl then None else checknetloc_nfkc L nl)"

text \<open>
  \<^verbatim>\<open>urlparse\<close> (through \<^verbatim>\<open>urlsplit\<close>): leading control characters and spaces are
  stripped, tabs and line breaks are removed, then scheme, netloc, fragment and query are
  split off in this order.
\<close>

definition urlparse :: "library \<Rightarrow> string \<Rightarrow> py_exception + ParseResult" where
  "urlparse L uri =
     (let url = filter (\<lambda>c. \<not> unsafe_url_byte c) (dropWhile c0_control_or_space uri);
          sch = fst (split_scheme url)
      in case split_authority L (snd (split_scheme url)) of
           Inl e \<Rightarrow> Inl e
         | Inr (nl, rest) \<Rightarrow>
             (let url' = (if CHR ''#'' \<in> set rest then before CHR ''#'' rest else rest);
                  q = (if CHR ''?'' \<in> set url' then after CHR ''?'' url' else [])
              in case checknetloc L nl of
                   Some msg \<Rightarrow> Inl (ValueError msg)
                 | None \<Rightarrow> Inr \<lparr>scheme = sch, netloc = nl, query = q\<rparr>))"

subsection \<open>The library's query-string parser\<close>

definition is_hexdig :: "char \<Rightarrow> bool" where
  "is_hexdig c = (is_digit c \<or> (65 \<le> code c \<and> code c \<le> 70) \<or> (97 \<le> code c \<and> code c \<le> 102))"

definition hex_value :: "char \<Rightarrow> nat" where
  "hex_value c = (if is_digit c then code c - 48
                  else if code c \<le> 70 then code c - 55
                  else code c - 87)"

text \<open>
  \<^verbatim>\<open>unquote_to_bytes\<close>: \<^verbatim>\<open>%XY\<close> with two hexadecimal digits becomes the byte it names;
  any other \<^verbatim>\<open>%\<close> stays.
\<close>

fun unquote_to_bytes :: "string \<Rightarrow> string" where
  "unquote_to_bytes [] = []"
| "unquote_to_bytes (c # s) =
     (case s of
        a # b # t \<Rightarrow>
          (if c = CHR ''%'' \<and> is_hexdig a \<and> is_hexdig b
           then char_of (hex_value a * 16 + hex_value b) # unquote_to_bytes t
           else c # unquote_to_bytes s)
      | _ \<Rightarrow> c # unquote_to_bytes s)"

text \<open>
  \<^verbatim>\<open>bytes.decode('utf-8', 'replace')\<close>, with the result written in UTF-8 again: a
  well-formed sequence is kept; a byte that cannot start a sequence, and a started sequence
  up to the byte that cannot continue it (or up to the end), becomes U+FFFD, the three
  bytes \<^verbatim>\<open>EF BF BD\<close>, and decoding goes on at the byte that did not fit.
\<close>

definition replacement :: string where
  "replacement = [CHR 0xEF, CHR 0xBF, CHR 0xBD]"

definition continuation :: "char \<Rightarrow> bool" where
  "continuation c = (128 \<le> code c \<and> code c \<le> 191)"

text \<open>The second byte allowed after the first byte \<open>a\<close> of a three-byte sequence.\<close>

definition second_of_three :: "char \<Rightarrow> char \<Rightarrow> bool" where
  "second_of_three a b =
     (if code a = 224 then 160 \<le> code b \<and> code b \<le> 191
      else if code a = 237 then 128 \<le> code b \<and> code b \<le> 159
      else continuation b)"

text \<open>The second byte allowed after the first byte \<open>a\<close> of a four-byte sequence.\<close>

definition second_of_four :: "char \<Rightarrow> char \<Rightarrow> bool" where
  "second_of_four a b =
     (if code a = 240 then 144 \<le> code b \<and> code b \<le> 191
      else if code a = 244 then 128 \<le> code b \<and> code b \<le> 143
      else continuation b)"

fun utf8_replace :: "string \<Rightarrow> string" where
  "utf8_replace [] = []"
| "utf8_replace (a # s) =
     (if code a < 128 then a # utf8_replace s
      else if 194 \<le> code a \<and> code a \<le> 223 then
        (case s of
           [] \<Rightarrow> replacement
         | b # t \<Rightarrow>
             if continuation b then a # b # utf8_replace t
             else replacement @ utf8_replace s)
      else if 224 \<le> code a \<and> code a \<le> 239 then
        (case s of
           [] \<Rightarrow> replacement
         | b # t \<Rightarrow>
             if second_of_three a b then
               (case t of
                  [] \<Rightarrow> replacement
                | c # u \<Rightarrow>
                    if continuation c then a # b # c # utf8_replace u
                    else replacement @ utf8_replace t)
             else replacement @ utf8_replace s)
      else if 240 \<le> code a \<and> code a \<le> 244 then
        (case s of
           [] \<Rightarrow> replacement
         | b # t \<Rightarrow>
             if second_of_four a b then
               (case t of
                  [] \<Rightarrow> replacement
                | c # u \<Rightarrow>
                    if continuation c then
                      (case u of
                         [] \<Rightarrow> replacement
                       | d # v \<Rightarrow>
                           if continuation d then a # b # c # d # utf8_replace v
                           else replacement @ utf8_replace u)
                    else replacement @ utf8_replace t)
             else replacement @ utf8_replace s)
      else replacement @ utf8_replace s)"

text \<open>
  The loop of \<^verbatim>\<open>unquote\<close>: the string is cut into runs of ASCII characters and runs of
  other characters; each ASCII run goes through \<^verbatim>\<open>unquote_to_bytes\<close> and is decoded,
  the other characters stay. \<open>run\<close> is the ASCII run read so far.
\<close>

fun unquote_bits :: "string \<Rightarrow> string \<Rightarrow> string" where
  "unquote_bits run [] = utf8_replace (unquote_to_bytes run)"
| "unquote_bits run (c # s) =
     (if code c < 128 then unquote_bits (run @ [c]) s
      else utf8_replace (unquote_to_bytes run) @ c # unquote_bits [] s)"

text \<open>\<^verbatim>\<open>unquote\<close>: a string without \<^verbatim>\<open>%\<close> is returned as it is.\<close>

definition unquote :: "string \<Rightarrow> string" where
  "unquote s = (if CHR ''%'' \<notin> set s then s else unquote_bits [] s)"

text \<open>\<^verbatim>\<open>unquote_plus\<close>: \<^verbatim>\<open>string.replace('+', ' ')\<close>, then \<^verbatim>\<open>unquote\<close>.\<close>

definition unquote_plus :: "string \<Rightarrow> string" where
  "unquote_plus s = unquote (map (\<lambda>c. if c = CHR ''+'' then CHR '' '' else c) s)"

text \<open>\<^verbatim>\<open>s.split(sep)\<close>\<close>

fun split :: "char \<Rightarrow> string \<Rightarrow> string list" where
  "split sep [] = [[]]"
| "split sep (c # s) =
     (if c = sep then [] # split sep s
      else (case split sep s of
              [] \<Rightarrow> [[c]]
            | w # ws \<Rightarrow> (c # w) # ws))"

text \<open>
  The loop of \<^verbatim>\<open>parse_qsl\<close> with its defaults (\<^verbatim>\<open>keep_blank_values=False\<close>,
  \<^verbatim>\<open>strict_parsing=False\<close>): an empty field is skipped, and so is a field whose value is
  empty.
\<close>

fun parse_fields :: "string list \<Rightarrow> (string \<times> string) list" where
  "parse_fields [] = []"
| "parse_fields (name_value # nvs) =
     (if name_value \<noteq> [] \<and> after CHR ''='' name_value \<noteq> []
      then (unquote_plus (before CHR ''='' name_value), unquote_plus (after CHR ''='' name_value))
             # parse_fields nvs
      else parse_fields nvs)"

definition parse_qsl :: "string \<Rightarrow> (string \<times> string) list" where
  "parse_qsl qs = (if qs = [] then [] else parse_fields (split CHR ''&'' qs))"

subsection \<open>The registry\<close>

type_synonym registry = "string \<rightharpoonup> py_class"

text \<open>
  \<^verbatim>\<open>BasePusher.__subclasses__()\<close> when the module is loaded: the four classes defined in it.
\<close>

definition subclasses :: "py_class list" where
  "subclasses = [Webhook_class, Telegram_class, Wechat_class, WirePusher_class]"

text \<open>
  \<^verbatim>\<open>all_pushers = {cls.__name__.lower(): cls for cls in BasePusher.__subclasses__()}\<close>
\<close>

definition all_pushers :: "library \<Rightarrow> registry" where
  "all_pushers L = foldl (\<lambda>d cls. d(py_lower L (class_name cls) \<mapsto> cls)) Map.empty subclasses"

text \<open>
  \<^verbatim>\<open>get_pusher\<close>. The registry is the module's global \<^verbatim>\<open>all_pushers\<close> at the time of the
  call, so it is an argument here.
\<close>

definition get_pusher :: "library \<Rightarrow> registry \<Rightarrow> string \<Rightarrow> py_exception + py_object" where
  "get_pusher L reg uri =
     (case urlparse L uri of
        Inl e \<Rightarrow> Inl e
      | Inr result \<Rightarrow>
          (let cls_name = py_lower L (netloc result) in
           if scheme result \<noteq> ''knotify'' then
             Inl (KnotifyException (Message ''Invalid url scheme''))
           else
             (case reg cls_name of
                None \<Rightarrow> Inl (KnotifyException (Message (''Invalid class name '' @ netloc result)))
              | Some cls \<Rightarrow>
                  (let params = dict (parse_qsl (query result)) in
                   case construct cls params of
                     Inl e \<Rightarrow> Inl (KnotifyException (Cause e))
                   | Inr pusher \<Rightarrow> Inr pusher))))"

text \<open>
  \<^verbatim>\<open>register_pusher\<close>: returns the updated registry. Its first test,
  \<^verbatim>\<open>isinstance(pusher, type)\<close>, holds of a class object and of nothing else here, so in
  the second equation \<open>class_of pusher\<close> is never \<open>None\<close>.
\<close>

fun register_pusher :: "library \<Rightarrow> registry \<Rightarrow> py_object \<Rightarrow> py_exception + registry" where
  "register_pusher L reg (Class c) = Inr (reg(get_cls_name L c \<mapsto> c))"
| "register_pusher L reg pusher =
     (case class_of pusher of
        None \<Rightarrow> Inl (KnotifyException (Message ''Invalid pusher type''))
      | Some c \<Rightarrow>
          (if isinstance_BasePusher pusher then Inr (reg(get_cls_name L c \<mapsto> c))
           else Inl (KnotifyException (Message (''Invalid pusher type '' @ class_str L c)))))"

subsection \<open>Pushing\<close>

text \<open>
  A push ends in one call on the HTTP session, \<^verbatim>\<open>self.s.post(url, json=body)\<close> or
  \<^verbatim>\<open>self.s.get(url, params=body)\<close>. The session and \<^verbatim>\<open>_check_result\<close> are not part of
  pusher.py; a \<^verbatim>\<open>_push\<close> method is embedded as the request it hands to the session.
\<close>

datatype request =
    Post string "(string \<times> py_value) list"
  | Get string "(string \<times> py_value) list"

text \<open>
  Binding \<^verbatim>\<open>**kwargs\<close> to \<^verbatim>\<open>_push(self, message, **kwargs)\<close>: any keyword is taken,
  except the names of the two parameters, which are bound already.
\<close>

fun bind_extra :: "string list \<Rightarrow> (string \<times> 'v) list \<Rightarrow> call_error option" where
  "bind_extra names [] = None"
| "bind_extra names ((k, v) # kw) =
     (if k \<in> set names then Some (multiple_values k) else bind_extra names kw)"

text \<open>\<^verbatim>\<open>d.setdefault(k, v)\<close>, as the dictionary it leaves.\<close>

definition setdefault :: "string \<Rightarrow> 'v \<Rightarrow> (string \<times> 'v) list \<Rightarrow> (string \<times> 'v) list" where
  "setdefault k v d = (if k \<in> fst ` set d then d else d @ [(k, v)])"

text \<open>\<^verbatim>\<open>Webhook._push\<close>, on the instance's \<^verbatim>\<open>url\<close>.\<close>

definition Webhook_push ::
  "string \<Rightarrow> py_value \<Rightarrow> (string \<times> py_value) list \<Rightarrow> py_exception + request" where
  "Webhook_push url message kwargs =
     (case bind_extra [''self'', ''message''] kwargs of
        Some e \<Rightarrow> Inl (TypeError e)
      | None \<Rightarrow> Inr (Post url (setdefault ''content'' message kwargs)))"

text \<open>\<^verbatim>\<open>Telegram._api.format(token=self.token)\<close>\<close>

definition Telegram_api :: "string \<Rightarrow> string" where
  "Telegram_api token = ''https://tgbot.lbyczf.com/sendMessage/'' @ token"

text \<open>\<^verbatim>\<open>Telegram._push\<close>, on the instance's \<^verbatim>\<open>token\<close>.\<close>

definition Telegram_push ::
  "string \<Rightarrow> py_value \<Rightarrow> (string \<times> py_value) list \<Rightarrow> py_exception + request" where
  "Telegram_push token message kwargs =
     (case bind_extra [''self'', ''message''] kwargs of
        Some e \<Rightarrow> Inl (TypeError e)
      | None \<Rightarrow>
          (let req_body = [(''text'', message), (''parse_mode'', PyStr ''Markdown'')];
               req_body = dict_update req_body kwargs
           in Inr (Post (Telegram_api token) req_body)))"

text \<open>\<^verbatim>\<open>Wechat._api.format(sckey=self.sckey)\<close>\<close>

definition Wechat_api :: "string \<Rightarrow> string" where
  "Wechat_api sckey = ''http://sc.ftqq.com/'' @ sckey @ ''.send''"

text \<open>\<^verbatim>\<open>Wechat._push\<close>, on the instance's \<^verbatim>\<open>sckey\<close>.\<close>

definition Wechat_push ::
  "string \<Rightarrow> py_value \<Rightarrow> (string \<times> py_value) list \<Rightarrow> py_exception + request" where
  "Wechat_push sckey message kwargs =
     (case bind_extra [''self'', ''message''] kwargs of
        Some e \<Rightarrow> Inl (TypeError e)
      | None \<Rightarrow> Inr (Get (Wechat_api sckey) [(''text'', message)]))"

text \<open>
  Modelled from the spec: \<^verbatim>\<open>BasePusher._build_body\<close> of base_pusher.py, which is not among
  the sources. The spec (4.3): it "computes the intersection of provided_fields \<union> defaults
  with allowed_fields; for each name in mandatory_fields absent after merging, fails with
  a ConfigurationError naming the missing field. Fields not in allowed_fields are silently
  dropped", and it returns the body and the dropped fields. A provided field takes
  precedence over a default of the same name.
\<close>

definition build_body ::
  "string list \<Rightarrow> (string \<times> 'v) list \<Rightarrow> string list \<Rightarrow> (string \<times> 'v) list
     \<Rightarrow> py_exception + (string \<times> 'v) list \<times> string list" where
  "build_body allowed provided mandatory defaults =
     (let merged = dict_update defaults provided in
      case find (\<lambda>name. name \<notin> fst ` set merged) mandatory of
        Some name \<Rightarrow> Inl (ConfigurationError name)
      | None \<Rightarrow>
          Inr (filter (\<lambda>(k, v). k \<in> set allowed) merged,
               map fst (filter (\<lambda>(k, v). k \<notin> set allowed) merged)))"

text \<open>The class attributes of \<^verbatim>\<open>WirePusher\<close>.\<close>

definition WirePusher_api :: string where
  "WirePusher_api = ''https://wirepusher.com/send''"

definition WirePusher_args :: "string list" where
  "WirePusher_args = [''id'', ''title'', ''message'', ''type'', ''action'', ''image_url'', ''message_id'']"

definition WirePusher_mandatory :: "string list" where
  "WirePusher_mandatory = [''id'', ''title'', ''message'']"

text \<open>\<^verbatim>\<open>WirePusher._push\<close>, on the instance's \<^verbatim>\<open>pid\<close>.\<close>

definition WirePusher_push ::
  "string \<Rightarrow> py_value \<Rightarrow> (string \<times> py_value) list \<Rightarrow> py_exception + request" where
  "WirePusher_push pid message kwargs =
     (case bind_extra [''self'', ''message''] kwargs of
        Some e \<Rightarrow> Inl (TypeError e)
      | None \<Rightarrow>
          (let kwargs = setdefault ''id'' (PyStr pid) kwargs;
               kwargs = setdefault ''title'' (PyStr ''Knotify Message'') kwargs
           in case build_body WirePusher_args kwargs WirePusher_mandatory [(''message'', message)] of
                Inl e \<Rightarrow> Inl e
              | Inr (req_body, dropped) \<Rightarrow> Inr (Get WirePusher_api req_body)))"

subsection \<open>Encoding a pusher as a URI\<close>

text \<open>
  \<^verbatim>\<open>urllib.parse.quote_plus\<close>: letters, digits and \<^verbatim>\<open>_.-~\<close> stay, a space becomes
  \<^verbatim>\<open>+\<close>, any other byte becomes \<^verbatim>\<open>%XY\<close> in upper-case hexadecimal.
\<close>

definition always_safe :: "char \<Rightarrow> bool" where
  "always_safe c = (is_alpha c \<or> is_digit c \<or> c = CHR ''_'' \<or> c = CHR ''.'' \<or> c = CHR ''-'' \<or> c = CHR ''~'')"

definition hex_digit :: "nat \<Rightarrow> char" where
  "hex_digit n = (if n < 10 then char_of (48 + n) else char_of (55 + n))"

definition quote_char :: "char \<Rightarrow> string" where
  "quote_char c =
     (if always_safe c then [c]
      else if c = CHR '' '' then ''+''
      else [CHR ''%'', hex_digit (code c div 16), hex_digit (code c mod 16)])"

definition quote_plus :: "string \<Rightarrow> string" where
  "quote_plus s = concat (map quote_char s)"

text \<open>\<^verbatim>\<open>sep.join(items)\<close>\<close>

fun join :: "string \<Rightarrow> string list \<Rightarrow> string" where
  "join sep [] = []"
| "join sep [x] = x"
| "join sep (x # y # ys) = x @ sep @ join sep (y # ys)"

text \<open>\<^verbatim>\<open>urllib.parse.urlencode\<close> of a dictionary of strings.\<close>

definition urlencode :: "(string \<times> string) list \<Rightarrow> string" where
  "urlencode kw = join ''&'' (map (\<lambda>(k, v). quote_plus k @ ''='' @ quote_plus v) kw)"

text \<open>
  Modelled from the spec: \<^verbatim>\<open>BasePusher._format_uri\<close> of base_pusher.py, which is not among
  the sources. The spec (4.5, 6): encode "produces scheme://type-name?k1=v1&k2=v2 from the
  notifier's identity fields", the scheme being the fixed literal that decode verifies and
  the parameters being URL-encoded.
\<close>

definition format_uri :: "library \<Rightarrow> py_class \<Rightarrow> (string \<times> string) list \<Rightarrow> string" where
  "format_uri L cls kw = ''knotify://'' @ get_cls_name L cls @ ''?'' @ urlencode kw"

text \<open>
  The \<^verbatim>\<open>uri\<close> property of the four classes. (A class defined elsewhere brings its own.)
  It is named \<open>pusher_uri\<close> here, \<open>uri\<close> being the argument of \<^verbatim>\<open>get_pusher\<close>.
\<close>

fun pusher_uri :: "library \<Rightarrow> py_object \<Rightarrow> string option" where
  "pusher_uri L (Webhook url m) = Some (format_uri L Webhook_class [(''url'', url)])"
| "pusher_uri L (Telegram token m) = Some (format_uri L Telegram_class [(''token'', token)])"
| "pusher_uri L (Wechat sckey m) = Some (format_uri L Wechat_class [(''sckey'', sckey)])"
| "pusher_uri L (WirePusher pid m) = Some (format_uri L WirePusher_class [(''pid'', pid)])"
| "pusher_uri L obj = None"

section \<open>Properties\<close>

subsection \<open>Dictionaries\<close>

lemma map_of_dict_update: "map_of (dict_update d ps) = map_of d ++ map_of (rev ps)"
  unfolding dict_update_def
proof (induction ps arbitrary: d)
  case Nil
  show ?case by simp
next
  case (Cons p ps)
  obtain k v where p: "p = (k, v)" by (cases p)
  show ?case
    by (simp add: p Cons.IH update_conv' map_of_append fun_eq_iff map_add_def split: option.splits)
qed




text \<open>
  Looking a key up in the reversed list finds its last occurrence in the list.
\<close>

lemma map_of_rev_last:
  "map_of (rev ps) k = Some v \<longleftrightarrow> (\<exists>ys zs. ps = ys @ (k, v) # zs \<and> k \<notin> fst ` set zs)"
proof (induction ps rule: rev_induct)
  case Nil
  show ?case by simp
next
  case (snoc p ps)
  obtain k' v' where p: "p = (k', v')" by (cases p)
  show ?case
  proof (cases "k' = k")
    case True
    have "(\<exists>ys zs. ps @ [(k, v')] = ys @ (k, v) # zs \<and> k \<notin> fst ` set zs) \<longleftrightarrow> v' = v"
    proof
      assume "\<exists>ys zs. ps @ [(k, v')] = ys @ (k, v) # zs \<and> k \<notin> fst ` set zs"
      then obtain ys zs where e: "ps @ [(k, v')] = ys @ (k, v) # zs" and n: "k \<notin> fst ` set zs" by blast
      show "v' = v"
      proof (cases zs rule: rev_cases)
        case Nil
        with e show ?thesis by simp
      next
        case (snoc zs' z)
        with e have "z = (k, v')" by simp
        with snoc n show ?thesis by simp
      qed
    next
      assume "v' = v"
      then have "ps @ [(k, v')] = ps @ (k, v) # [] \<and> k \<notin> fst ` set []" by simp
      then show "\<exists>ys zs. ps @ [(k, v')] = ys @ (k, v) # zs \<and> k \<notin> fst ` set zs" by blast
    qed
    with True p show ?thesis by simp
  next
    case False
    have "(\<exists>ys zs. ps @ [(k', v')] = ys @ (k, v) # zs \<and> k \<notin> fst ` set zs)
          \<longleftrightarrow> (\<exists>ys zs. ps = ys @ (k, v) # zs \<and> k \<notin> fst ` set zs)"
    proof
      assume "\<exists>ys zs. ps @ [(k', v')] = ys @ (k, v) # zs \<and> k \<notin> fst ` set zs"
      then obtain ys zs where e: "ps @ [(k', v')] = ys @ (k, v) # zs" and n: "k \<notin> fst ` set zs" by blast
      show "\<exists>ys zs. ps = ys @ (k, v) # zs \<and> k \<notin> fst ` set zs"
      proof (cases zs rule: rev_cases)
        case Nil
        with e False show ?thesis by simp
      next
        case (snoc zs' z)
        with e have "ps = ys @ (k, v) # zs'" by simp
        moreover from snoc n have "k \<notin> fst ` set zs'" by simp
        ultimately show ?thesis by blast
      qed
    next
      assume "\<exists>ys zs. ps = ys @ (k, v) # zs \<and> k \<notin> fst ` set zs"
      then obtain ys zs where e: "ps = ys @ (k, v) # zs" and n: "k \<notin> fst ` set zs" by blast
      then have "ps @ [(k', v')] = ys @ (k, v) # (zs @ [(k', v')]) \<and> k \<notin> fst ` set (zs @ [(k', v')])"
        using False by simp
      then show "\<exists>ys zs. ps @ [(k', v')] = ys @ (k, v) # zs \<and> k \<notin> fst ` set zs" by blast
    qed
    with False p snoc.IH show ?thesis by simp
  qed
qed

subsection \<open>Construction\<close>

lemma construct_class: "construct c kw = Inr p \<Longrightarrow> class_of p = Some c"
  by (cases c) (auto simp: init_pusher_def split: option.splits)

subsection \<open>Lower case and the initial registry\<close>

lemma py_lower_ascii: "isascii s \<Longrightarrow> py_lower L s = lower s"
  by (simp add: py_lower_def)

lemma class_names_ascii:
  "isascii ''Webhook''" "isascii ''Telegram''" "isascii ''Wechat''" "isascii ''WirePusher''"
  by code_simp+

lemma lower_class_names:
  "lower ''Webhook'' = ''webhook''" "lower ''Telegram'' = ''telegram''"
  "lower ''Wechat'' = ''wechat''" "lower ''WirePusher'' = ''wirepusher''"
  by code_simp+

lemma py_lower_class_names:
  "py_lower L ''Webhook'' = ''webhook''" "py_lower L ''Telegram'' = ''telegram''"
  "py_lower L ''Wechat'' = ''wechat''" "py_lower L ''WirePusher'' = ''wirepusher''"
  by (simp_all only: py_lower_ascii class_names_ascii lower_class_names)

lemma all_pushers_eq:
  "all_pushers L = [''webhook'' \<mapsto> Webhook_class, ''telegram'' \<mapsto> Telegram_class,
                    ''wechat'' \<mapsto> Wechat_class, ''wirepusher'' \<mapsto> WirePusher_class]"
  by (simp add: all_pushers_def subclasses_def py_lower_class_names)

lemma all_pushers_subclasses:
  "all_pushers L k = Some c \<Longrightarrow> subclass_BasePusher c"
  by (auto simp: all_pushers_eq split: if_splits)

subsection \<open>The scheme of a parsed URI\<close>

lemma alpha_of_lower: "list_all is_lower (lower s) \<Longrightarrow> list_all is_alpha s"
  by (induction s) (auto simp: lower_def lower_char_def is_alpha_def split: if_splits)

lemma knotify_is_lower: "list_all is_lower ''knotify''"
  by code_simp

lemma knotify_is_alpha: "list_all is_alpha ''knotify''"
  by code_simp

lemma lower_knotify: "lower ''knotify'' = ''knotify''"
  by code_simp

lemma alpha_facts:
  assumes "is_alpha c"
  shows "\<not> c0_control_or_space c" "\<not> unsafe_url_byte c" "c \<noteq> CHR '':''" "scheme_char c"
  using assms
  by (auto simp: is_alpha_def is_upper_def is_lower_def c0_control_or_space_def unsafe_url_byte_def
      scheme_char_def code_def)

lemma colon_safe: "\<not> unsafe_url_byte CHR '':''"
  by (simp add: unsafe_url_byte_def code_def)

text \<open>The parser raises nothing but \<^verbatim>\<open>ValueError\<close>.\<close>

lemma urlparse_error: "urlparse L uri = Inl e \<Longrightarrow> \<exists>msg. e = ValueError msg"
  unfolding urlparse_def split_authority_def Let_def
  by (auto split: sum.splits option.splits prod.splits if_splits)

text \<open>
  A non-empty run of letters before the first colon is the scheme, whatever follows.
\<close>

lemma split_scheme_alpha:
  assumes "list_all is_alpha s" and "s \<noteq> []"
  shows "split_scheme (filter (\<lambda>c. \<not> unsafe_url_byte c) (dropWhile c0_control_or_space (s @ CHR '':'' # rest)))
           = (lower s, filter (\<lambda>c. \<not> unsafe_url_byte c) rest)"
proof -
  let ?r = "filter (\<lambda>c. \<not> unsafe_url_byte c) rest"
  from assms obtain c t where s: "s = c # t" by (cases s) auto
  with assms have c: "is_alpha c" by simp
  have 1: "dropWhile c0_control_or_space (s @ CHR '':'' # rest) = s @ CHR '':'' # rest"
    using c s by (simp add: alpha_facts)
  have "\<forall>x\<in>set s. \<not> unsafe_url_byte x"
    using assms(1) by (auto simp: list_all_iff alpha_facts)
  then have 2: "filter (\<lambda>c. \<not> unsafe_url_byte c) (s @ CHR '':'' # rest) = s @ CHR '':'' # ?r"
    by (simp add: colon_safe filter_id_conv)
  have n: "\<forall>x\<in>set s. x \<noteq> CHR '':''"
    using assms(1) by (auto simp: list_all_iff alpha_facts)
  then have 3: "before CHR '':'' (s @ CHR '':'' # ?r) = s"
    by (simp add: before_def takeWhile_append2)
  from n have 4: "after CHR '':'' (s @ CHR '':'' # ?r) = ?r"
    by (simp add: after_def dropWhile_append2)
  have 5: "list_all scheme_char s"
    using assms(1) by (auto simp: list_all_iff alpha_facts)
  have 6: "is_alpha (hd (s @ CHR '':'' # ?r))"
    using c s by simp
  show ?thesis
    unfolding 1 2 split_scheme_def 3 4 using 5 6 assms(2) by simp
qed

lemma urlparse_scheme_alpha:
  assumes "list_all is_alpha s" and "s \<noteq> []" and "list_all is_alpha t" and "t \<noteq> []"
    and "lower s = lower t"
  shows "urlparse L (s @ CHR '':'' # rest) = urlparse L (t @ CHR '':'' # rest)"
  unfolding urlparse_def Let_def
  by (simp only: split_scheme_alpha [OF assms(1,2)] split_scheme_alpha [OF assms(3,4)] assms(5))

lemma urlparse_any_case:
  assumes "lower s = ''knotify''"
  shows "urlparse L (s @ CHR '':'' # rest) = urlparse L (''knotify'' @ CHR '':'' # rest)"
proof -
  have a: "list_all is_alpha s"
    using assms knotify_is_lower by (auto intro: alpha_of_lower)
  have b: "s \<noteq> []" using assms by (auto simp: lower_def)
  show ?thesis
    by (rule urlparse_scheme_alpha [OF a b knotify_is_alpha]) (simp_all add: assms lower_knotify)
qed

lemma urlparse_knotify_scheme:
  assumes "urlparse L (''knotify'' @ CHR '':'' # rest) = Inr result"
  shows "scheme result = ''knotify''"
proof -
  have "split_scheme (filter (\<lambda>c. \<not> unsafe_url_byte c) (dropWhile c0_control_or_space (''knotify'' @ CHR '':'' # rest)))
           = (''knotify'', filter (\<lambda>c. \<not> unsafe_url_byte c) rest)"
    using split_scheme_alpha [OF knotify_is_alpha, of rest] by (simp add: lower_knotify)
  with assms show ?thesis
    unfolding urlparse_def Let_def
    by (auto split: sum.splits option.splits prod.splits)
qed

subsection \<open>Registration\<close>

text \<open>
  Whether a registration is accepted, and the entry it writes, do not depend on what the
  registry holds.
\<close>

lemma register_pusher_empty:
  "register_pusher L Map.empty p = Inr r \<Longrightarrow> register_pusher L reg p = Inr (reg ++ r)"
  by (cases p) (auto split: if_splits option.splits)

lemma register_pusher_instance:
  "isinstance_BasePusher p \<Longrightarrow> class_of p = Some c \<Longrightarrow>
     register_pusher L reg p = Inr (reg(get_cls_name L c \<mapsto> c))"
  by (cases p) (auto simp: isinstance_BasePusher_def)

lemma register_pusher_other:
  "\<not> isinstance_BasePusher p \<Longrightarrow> class_of p = Some c \<Longrightarrow>
     register_pusher L reg p = Inl (KnotifyException (Message (''Invalid pusher type '' @ class_str L c)))"
  by (cases p) (auto simp: isinstance_BasePusher_def)

subsection \<open>Sample URIs, evaluated\<close>

lemma urlparse_samples:
  "urlparse L ''wrongscheme://webhook?url=abc''
     = Inr \<lparr>scheme = ''wrongscheme'', netloc = ''webhook'', query = ''url=abc''\<rparr>"
  "urlparse L ''knotify://NonExistent?x=1''
     = Inr \<lparr>scheme = ''knotify'', netloc = ''NonExistent'', query = ''x=1''\<rparr>"
  "urlparse L ''knotify://WebHook?url=abc''
     = Inr \<lparr>scheme = ''knotify'', netloc = ''WebHook'', query = ''url=abc''\<rparr>"
  "urlparse L ''knotify://webhook?url=a&url=b''
     = Inr \<lparr>scheme = ''knotify'', netloc = ''webhook'', query = ''url=a&url=b''\<rparr>"
  "urlparse L ''knotify://telegram?token=a&x=1''
     = Inr \<lparr>scheme = ''knotify'', netloc = ''telegram'', query = ''token=a&x=1''\<rparr>"
  "urlparse L ''knotify://telegram?token=foo''
     = Inr \<lparr>scheme = ''knotify'', netloc = ''telegram'', query = ''token=foo''\<rparr>"
  "urlparse L ''knotify://foo?x=1''
     = Inr \<lparr>scheme = ''knotify'', netloc = ''foo'', query = ''x=1''\<rparr>"
  "urlparse L ''knotify://plain?x=1''
     = Inr \<lparr>scheme = ''knotify'', netloc = ''plain'', query = ''x=1''\<rparr>"
  "urlparse L ''knotify://webhook?url=a&url=''
     = Inr \<lparr>scheme = ''knotify'', netloc = ''webhook'', query = ''url=a&url=''\<rparr>"
  "urlparse L ''knotify://webhook?url=a%20b&url=c+d%2F''
     = Inr \<lparr>scheme = ''knotify'', netloc = ''webhook'', query = ''url=a%20b&url=c+d%2F''\<rparr>"
  "urlparse L ''wrongscheme://[webhook?url=abc'' = Inl (ValueError ''Invalid IPv6 URL'')"
  "urlparse L ''knotify://[nonexistent?x=1'' = Inl (ValueError ''Invalid IPv6 URL'')"
  by code_simp+

lemma py_lower_samples:
  "py_lower L ''NonExistent'' = ''nonexistent''" "py_lower L ''WebHook'' = ''webhook''"
  "py_lower L ''webhook'' = ''webhook''" "py_lower L ''telegram'' = ''telegram''"
  "py_lower L ''Foo'' = ''foo''" "py_lower L ''FOO'' = ''foo''"
  "py_lower L ''foo'' = ''foo''" "py_lower L ''Plain'' = ''plain''" "py_lower L ''plain'' = ''plain''"
  by code_simp+

lemma lower_samples: "lower ''KnOtIfY'' = ''knotify''"
  by code_simp

lemma parse_qsl_samples:
  "parse_qsl ''url=abc'' = [(''url'', ''abc'')]"
  "parse_qsl ''url=a&url=b'' = [(''url'', ''a''), (''url'', ''b'')]"
  "parse_qsl ''token=a&x=1'' = [(''token'', ''a''), (''x'', ''1'')]"
  "parse_qsl ''token=foo'' = [(''token'', ''foo'')]"
  "parse_qsl ''x=1'' = [(''x'', ''1'')]"
  "parse_qsl ''url=a&url='' = [(''url'', ''a'')]"
  "parse_qsl ''url=a%20b&url=c+d%2F'' = [(''url'', ''a b''), (''url'', ''c d/'')]"
  by code_simp+

lemma dict_samples:
  "dict [(''url'', ''abc'')] = [(''url'', ''abc'')]"
  "dict [(''url'', ''a''), (''url'', ''b'')] = [(''url'', ''b'')]"
  "dict [(''token'', ''a''), (''x'', ''1'')] = [(''token'', ''a''), (''x'', ''1'')]"
  "dict [(''token'', ''foo'')] = [(''token'', ''foo'')]"
  "dict [(''x'', ''1'')] = [(''x'', ''1'')]"
  "dict [(''url'', ''a b''), (''url'', ''c d/'')] = [(''url'', ''c d/'')]"
  "dict [(''url'', ''a'')] = [(''url'', ''a'')]"
  by code_simp+

subsection \<open>Keyword arguments and request bodies\<close>

lemma bind_extra_None: "(bind_extra names kw = None) = (\<forall>k\<in>fst ` set kw. k \<notin> set names)"
  by (induction kw) (auto split: if_splits)

lemma bind_extra_self_message:
  assumes "''self'' \<notin> fst ` set kw" and "''message'' \<notin> fst ` set kw"
  shows "bind_extra [''self'', ''message''] kw = None"
proof -
  have "\<forall>k\<in>fst ` set kw. k \<notin> set [''self'', ''message'']"
  proof
    fix k
    assume k: "k \<in> fst ` set kw"
    from k assms(1) have 1: "k \<noteq> ''self''" by blast
    from k assms(2) have 2: "k \<noteq> ''message''" by blast
    from 1 2 show "k \<notin> set [''self'', ''message'']" by simp
  qed
  then show ?thesis by (simp only: bind_extra_None)
qed

lemma map_of_rev_distinct: "distinct (map fst xs) \<Longrightarrow> map_of (rev xs) = map_of xs"
  by (rule map_of_inject_set [THEN iffD2]) (simp_all add: rev_map [symmetric])

lemma map_of_filter_keys:
  "map_of (filter (\<lambda>(k, v). k \<in> A) xs) k = (if k \<in> A then map_of xs k else None)"
  by (induction xs) auto

lemma distinct_setdefault: "distinct (map fst d) \<Longrightarrow> distinct (map fst (setdefault k v d))"
  by (auto simp: setdefault_def)

lemma map_of_setdefault:
  "map_of (setdefault k v d) = (if k \<in> fst ` set d then map_of d else (map_of d)(k \<mapsto> v))"
proof (cases "k \<in> fst ` set d")
  case True
  then show ?thesis by (simp add: setdefault_def)
next
  case False
  then have "map_of d k = None" by (simp add: map_of_eq_None_iff)
  with False show ?thesis
    by (auto simp: setdefault_def fun_eq_iff map_add_def split: option.splits)
qed

lemma keys_setdefault: "fst ` set (setdefault k v d) = insert k (fst ` set d)"
  by (auto simp: setdefault_def)

lemma map_of_update_kwargs:
  assumes "distinct (map fst kwargs)"
  shows "map_of (dict_update d kwargs) k = (case map_of kwargs k of Some v \<Rightarrow> Some v | None \<Rightarrow> map_of d k)"
  by (simp add: map_of_dict_update map_of_rev_distinct [OF assms] map_add_def)

subsection \<open>Quoting and unquoting\<close>

lemma code_char_of: "n < 256 \<Longrightarrow> code (char_of n) = n"
  by (simp add: code_def)

lemma code_less: "code c < 256"
  by (simp add: code_def)

lemma code_inject: "code c = code d \<Longrightarrow> c = d"
  by (simp add: code_def)

lemma code_hex_digit: "n < 16 \<Longrightarrow> code (hex_digit n) = (if n < 10 then 48 + n else 55 + n)"
  by (simp add: hex_digit_def code_char_of)

lemma hex_digit_facts:
  assumes "n < 16"
  shows "is_hexdig (hex_digit n)" "hex_value (hex_digit n) = n"
  using assms by (auto simp: is_hexdig_def hex_value_def is_digit_def code_hex_digit)

lemma code_literals: "code CHR ''+'' = 43" "code CHR ''%'' = 37" "code CHR '' '' = 32"
  by (simp_all add: code_def)

lemma hex_digit_not_plus: "n < 16 \<Longrightarrow> hex_digit n \<noteq> CHR ''+''"
proof
  assume n: "n < 16" and e: "hex_digit n = CHR ''+''"
  from e have "code (hex_digit n) = code CHR ''+''" by simp
  with n show False by (simp add: code_hex_digit code_literals split: if_splits)
qed

text \<open>The codes of the characters that \<^verbatim>\<open>quote_plus\<close> can produce.\<close>

lemma always_safe_code: "always_safe c \<Longrightarrow> code c \<in> {37, 43, 45, 46, 95, 126} \<union> {48..57} \<union> {65..90} \<union> {97..122}"
  by (auto simp: always_safe_def is_alpha_def is_upper_def is_lower_def is_digit_def code_def)

lemma hex_digit_quoted: "n < 16 \<Longrightarrow> code (hex_digit n) \<in> {37, 43, 45, 46, 95, 126} \<union> {48..57} \<union> {65..90} \<union> {97..122}"
  by (simp add: code_hex_digit)

lemma quote_char_codes: "x \<in> set (quote_char c) \<Longrightarrow> code x \<in> {37, 43, 45, 46, 95, 126} \<union> {48..57} \<union> {65..90} \<union> {97..122}"
proof -
  assume x: "x \<in> set (quote_char c)"
  have d: "code c div 16 < 16" "code c mod 16 < 16"
    using code_less [of c] by simp_all
  show ?thesis
  proof (cases "always_safe c")
    case True
    with x always_safe_code [OF True] show ?thesis by (simp add: quote_char_def)
  next
    case False
    show ?thesis
    proof (cases "c = CHR '' ''")
      case True
      with x False show ?thesis by (simp add: quote_char_def code_literals)
    next
      case sp: False
      from x False sp
      consider "x = CHR ''%''" | "x = hex_digit (code c div 16)" | "x = hex_digit (code c mod 16)"
        by (auto simp: quote_char_def)
      then show ?thesis
      proof cases
        case 1
        then show ?thesis by (simp add: code_literals)
      next
        case 2
        with d show ?thesis by (simp only: hex_digit_quoted)
      next
        case 3
        with d show ?thesis by (simp only: hex_digit_quoted)
      qed
    qed
  qed
qed

lemma quote_plus_codes: "x \<in> set (quote_plus s) \<Longrightarrow> code x \<in> {37, 43, 45, 46, 95, 126} \<union> {48..57} \<union> {65..90} \<union> {97..122}"
  by (auto simp: quote_plus_def dest: quote_char_codes)

lemma quote_plus_ascii: "x \<in> set (quote_plus s) \<Longrightarrow> code x < 128"
  using quote_plus_codes [of x s] by auto

lemma unquote_to_bytes_plain: "c \<noteq> CHR ''%'' \<Longrightarrow> unquote_to_bytes (c # s) = c # unquote_to_bytes s"
  by (simp split: list.splits)

lemma unquote_to_bytes_escape:
  "is_hexdig a \<Longrightarrow> is_hexdig b \<Longrightarrow>
     unquote_to_bytes (CHR ''%'' # a # b # s) = char_of (hex_value a * 16 + hex_value b) # unquote_to_bytes s"
  by simp

lemma unquote_to_bytes_no_percent: "CHR ''%'' \<notin> set s \<Longrightarrow> unquote_to_bytes s = s"
proof (induction s)
  case Nil
  show ?case by simp
next
  case (Cons a s)
  from Cons.prems have n: "a \<noteq> CHR ''%''" and r: "CHR ''%'' \<notin> set s" by auto
  show ?case
    by (simp only: unquote_to_bytes_plain [OF n] Cons.IH [OF r])
qed

lemma always_safe_plain: "always_safe c \<Longrightarrow> c \<noteq> CHR ''+'' \<and> c \<noteq> CHR ''%''"
  by (auto simp: always_safe_def is_alpha_def is_upper_def is_lower_def is_digit_def code_def)

lemma plus_to_space_quote_char:
  "unquote_to_bytes (map (\<lambda>c. if c = CHR ''+'' then CHR '' '' else c) (quote_char c) @ t)
     = c # unquote_to_bytes t"
proof (cases "always_safe c")
  case True
  with always_safe_plain [OF True] show ?thesis
    by (simp add: quote_char_def unquote_to_bytes_plain del: unquote_to_bytes.simps)
next
  case False
  show ?thesis
  proof (cases "c = CHR '' ''")
    case True
    with False show ?thesis
      by (simp add: quote_char_def unquote_to_bytes_plain del: unquote_to_bytes.simps)
  next
    case sp: False
    let ?a = "hex_digit (code c div 16)" and ?b = "hex_digit (code c mod 16)"
    have d: "code c div 16 < 16" "code c mod 16 < 16"
      using code_less [of c] by simp_all
    have np: "?a \<noteq> CHR ''+''" "?b \<noteq> CHR ''+''"
      using d by (simp_all only: hex_digit_not_plus not_False_eq_True)
    have h: "is_hexdig ?a" "is_hexdig ?b"
      using d by (simp_all only: hex_digit_facts)
    have "hex_value ?a * 16 + hex_value ?b = code c"
      using d by (simp only: hex_digit_facts) simp
    then have v: "char_of (hex_value ?a * 16 + hex_value ?b) = c"
      by (simp only:) (simp add: code_def)
    have q: "quote_char c = [CHR ''%'', ?a, ?b]"
      using False sp by (simp add: quote_char_def)
    have "map (\<lambda>c. if c = CHR ''+'' then CHR '' '' else c) (quote_char c) = [CHR ''%'', ?a, ?b]"
      unfolding q using np by simp
    then show ?thesis
      using unquote_to_bytes_escape [OF h, of t] v by (simp del: unquote_to_bytes.simps)
  qed
qed

text \<open>Percent-decoding undoes \<^verbatim>\<open>quote_plus\<close> on every byte string.\<close>

lemma unquote_to_bytes_quote_plus:
  "unquote_to_bytes (map (\<lambda>c. if c = CHR ''+'' then CHR '' '' else c) (quote_plus s)) = s"
proof -
  have "unquote_to_bytes (map (\<lambda>c. if c = CHR ''+'' then CHR '' '' else c) (concat (map quote_char s))) = s"
  proof (induction s)
    case Nil
    show ?case by simp
  next
    case (Cons c s)
    show ?case
      using plus_to_space_quote_char [of c "map (\<lambda>c. if c = CHR ''+'' then CHR '' '' else c) (concat (map quote_char s))"]
      by (simp add: Cons.IH del: unquote_to_bytes.simps)
  qed
  then show ?thesis by (simp add: quote_plus_def)
qed

lemma unquote_bits_ascii:
  "\<forall>x\<in>set s. code x < 128 \<Longrightarrow> unquote_bits run s = utf8_replace (unquote_to_bytes (run @ s))"
  by (induction s arbitrary: run) simp_all

lemma utf8_replace_ascii: "isascii s \<Longrightarrow> utf8_replace s = s"
  by (induction s) (simp_all add: isascii_def del: utf8_replace.simps(2), simp)

text \<open>
  \<^verbatim>\<open>unquote_plus\<close> undoes \<^verbatim>\<open>quote_plus\<close> on well-formed UTF-8, that is, on every string
  that decoding leaves as it is.
\<close>

lemma unquote_plus_quote_plus:
  assumes "utf8_replace s = s"
  shows "unquote_plus (quote_plus s) = s"
proof -
  let ?t = "map (\<lambda>c. if c = CHR ''+'' then CHR '' '' else c) (quote_plus s)"
  have b: "unquote_to_bytes ?t = s"
    by (rule unquote_to_bytes_quote_plus)
  have a: "\<forall>x\<in>set ?t. code x < 128"
    using quote_plus_ascii [of _ s] by (auto simp: code_literals)
  show ?thesis
  proof (cases "CHR ''%'' \<in> set ?t")
    case True
    then have "unquote ?t = unquote_bits [] ?t"
      by (simp add: unquote_def)
    also have "\<dots> = utf8_replace (unquote_to_bytes ([] @ ?t))"
      by (rule unquote_bits_ascii [OF a])
    finally show ?thesis
      using b assms by (simp add: unquote_plus_def)
  next
    case False
    then have "unquote_to_bytes ?t = ?t"
      by (rule unquote_to_bytes_no_percent)
    with b have "?t = s" by simp
    with False show ?thesis by (simp add: unquote_plus_def unquote_def)
  qed
qed

lemma quote_plus_nonempty: "s \<noteq> [] \<Longrightarrow> quote_plus s \<noteq> []"
  by (cases s) (auto simp: quote_plus_def quote_char_def)

subsection \<open>Parsing an encoded pusher\<close>

lemma lower_letter_facts:
  assumes "is_lower c"
  shows "\<not> unsafe_url_byte c" "\<not> netloc_delim c" "c \<noteq> CHR ''[''" "c \<noteq> CHR '']''"
    "c \<noteq> CHR ''#''" "c \<noteq> CHR ''=''" "c \<noteq> CHR ''&''" "c \<noteq> CHR ''+''" "c \<noteq> CHR ''%''"
    "code c < 128"
  using assms
  by (auto simp: is_lower_def unsafe_url_byte_def netloc_delim_def code_def)

lemma quoted_facts:
  assumes "code c \<in> {37, 43, 45, 46, 95, 126} \<union> {48..57} \<union> {65..90} \<union> {97..122}"
  shows "\<not> unsafe_url_byte c" "c \<noteq> CHR ''#''" "c \<noteq> CHR ''&''"
  using assms
  by (auto simp: unsafe_url_byte_def code_def)

lemma quote_plus_chars:
  assumes "x \<in> set (quote_plus v)"
  shows "\<not> unsafe_url_byte x" "x \<noteq> CHR ''#''" "x \<noteq> CHR ''&''"
  by (rule quoted_facts [OF quote_plus_codes [OF assms]])+

lemma delimiter_facts:
  "\<not> unsafe_url_byte CHR ''/''" "\<not> unsafe_url_byte CHR ''?''" "\<not> unsafe_url_byte CHR ''=''"
  "netloc_delim CHR ''?''"
  by (simp_all add: unsafe_url_byte_def netloc_delim_def code_def)

lemma split_no_sep: "sep \<notin> set s \<Longrightarrow> split sep s = [s]"
  by (induction s) auto

lemma unquote_plus_plain:
  assumes "\<forall>x\<in>set s. x \<noteq> CHR ''+'' \<and> x \<noteq> CHR ''%''"
  shows "unquote_plus s = s"
proof -
  have "map (\<lambda>c. if c = CHR ''+'' then CHR '' '' else c) s = s"
    using assms by (intro map_idI) simp
  moreover have "CHR ''%'' \<notin> set s"
    using assms by blast
  ultimately show ?thesis
    by (simp add: unquote_plus_def unquote_def)
qed

text \<open>
  The URI that \<^verbatim>\<open>_format_uri\<close> makes of one identity field parses into the type name and
  the encoded field.
\<close>

lemma urlparse_formatted:
  assumes "list_all is_lower name" and "list_all is_lower f"
  shows "urlparse L (''knotify://'' @ name @ ''?'' @ f @ ''='' @ quote_plus v)
           = Inr \<lparr>scheme = ''knotify'', netloc = name, query = f @ ''='' @ quote_plus v\<rparr>"
proof -
  let ?Q = "quote_plus v"
  let ?q = "f @ ''='' @ ?Q"
  let ?rest = "''//'' @ name @ ''?'' @ ?q"
  have nm: "\<forall>x\<in>set name. is_lower x" and fl: "\<forall>x\<in>set f. is_lower x"
    using assms by (simp_all add: list_all_iff)
  have Q: "\<forall>x\<in>set ?Q. \<not> unsafe_url_byte x \<and> x \<noteq> CHR ''#'' \<and> x \<noteq> CHR ''&''"
    by (simp add: quote_plus_chars)
  have safe: "\<forall>x\<in>set ?rest. \<not> unsafe_url_byte x"
    using nm fl Q by (auto simp: delimiter_facts lower_letter_facts)
  have 1: "split_scheme (filter (\<lambda>c. \<not> unsafe_url_byte c)
             (dropWhile c0_control_or_space (''knotify'' @ CHR '':'' # ?rest))) = (''knotify'', ?rest)"
    using split_scheme_alpha [OF knotify_is_alpha, of ?rest] safe
    by (simp add: lower_knotify filter_id_conv del: append.simps)
  have tw: "takeWhile (\<lambda>c. \<not> netloc_delim c) (name @ ''?'' @ ?q) = name"
    using nm by (simp add: takeWhile_append2 lower_letter_facts delimiter_facts)
  have dw: "dropWhile (\<lambda>c. \<not> netloc_delim c) (name @ ''?'' @ ?q) = ''?'' @ ?q"
    using nm by (simp add: dropWhile_append2 lower_letter_facts delimiter_facts)
  have br: "CHR ''['' \<notin> set name" "CHR '']'' \<notin> set name"
    using nm lower_letter_facts(3,4) by blast+
  have 2: "split_authority L ?rest = Inr (name, ''?'' @ ?q)"
    using br tw dw by (simp add: split_authority_def splitnetloc_def)
  have h: "CHR ''#'' \<notin> set (''?'' @ ?q)"
    using fl Q lower_letter_facts(5) by auto
  have 3: "after CHR ''?'' (''?'' @ ?q) = ?q"
    by (simp add: after_def)
  have m: "CHR ''?'' \<in> set (''?'' @ ?q)"
    by simp
  have "isascii name"
    using nm by (auto simp: isascii_def list_all_iff lower_letter_facts)
  then have 4: "checknetloc L name = None"
    by (simp add: checknetloc_def)
  have u: "''knotify://'' @ name @ ''?'' @ ?q = ''knotify'' @ CHR '':'' # ?rest"
    by simp
  show ?thesis
    unfolding u urlparse_def Let_def 1
    using 2 h 3 4 m by (simp del: append.simps set_append)
qed

lemma parse_qsl_formatted:
  assumes "list_all is_lower f" and "f \<noteq> []" and "v \<noteq> []" and "utf8_replace v = v"
  shows "parse_qsl (f @ ''='' @ quote_plus v) = [(f, v)]"
proof -
  let ?Q = "quote_plus v"
  let ?q = "f @ ''='' @ ?Q"
  have fl: "\<forall>x\<in>set f. is_lower x"
    using assms(1) by (simp add: list_all_iff)
  have Q: "\<forall>x\<in>set ?Q. x \<noteq> CHR ''&''"
    by (simp add: quote_plus_chars)
  have a: "CHR ''&'' \<notin> set ?q"
    using fl Q lower_letter_facts(7) by auto
  have e: "\<forall>x\<in>set f. x \<noteq> CHR ''=''"
    using fl lower_letter_facts(6) by blast
  have b: "before CHR ''='' ?q = f"
    using e by (simp add: before_def takeWhile_append2)
  have c: "after CHR ''='' ?q = ?Q"
    using e by (simp add: after_def dropWhile_append2)
  have p: "unquote_plus f = f"
    using fl lower_letter_facts(8,9) by (intro unquote_plus_plain) blast
  have ne: "?Q \<noteq> []"
    by (rule quote_plus_nonempty [OF assms(3)])
  have "?q \<noteq> []" using assms(2) by simp
  then show ?thesis
    unfolding parse_qsl_def split_no_sep [OF a]
    using ne by (simp add: b c p unquote_plus_quote_plus [OF assms(4)] del: append.simps)
qed

subsection \<open>Encoding, then decoding\<close>

lemma field_is_lower:
  "list_all is_lower ''url''" "list_all is_lower ''token''" "list_all is_lower ''sckey''"
  "list_all is_lower ''pid''"
  by code_simp+

lemma name_is_lower:
  "list_all is_lower ''webhook''" "list_all is_lower ''telegram''" "list_all is_lower ''wechat''"
  "list_all is_lower ''wirepusher''"
  by code_simp+

lemma lower_name:
  "py_lower L ''webhook'' = ''webhook''" "py_lower L ''telegram'' = ''telegram''"
  "py_lower L ''wechat'' = ''wechat''" "py_lower L ''wirepusher'' = ''wirepusher''"
  by code_simp+

lemma quote_plus_field:
  "quote_plus ''url'' = ''url''" "quote_plus ''token'' = ''token''"
  "quote_plus ''sckey'' = ''sckey''" "quote_plus ''pid'' = ''pid''"
  by code_simp+

lemma quote_plus_Nil: "quote_plus [] = []"
  by (simp add: quote_plus_def)

lemma dict_single: "dict [(k, v)] = [(k, v)]"
  by (simp add: dict_def dict_update_def)

lemma dict_Nil: "dict [] = []"
  by (simp add: dict_def dict_update_def)

text \<open>
  Decoding the URI of one of the four pushers gives back a pusher of the same class with
  the same identity field, provided the field is not the empty string. (The field is a
  Python string, so its bytes are well-formed UTF-8: decoding leaves them as they are.)
\<close>

lemma get_pusher_formatted:
  assumes "list_all is_lower f" and "f \<noteq> []" and "v \<noteq> []" and "utf8_replace v = v"
    and "list_all is_lower name" and "py_lower L name = name" and "quote_plus f = f"
    and "all_pushers L name = Some cls"
  shows "get_pusher L (all_pushers L) (''knotify://'' @ name @ ''?'' @ urlencode [(f, v)])
           = (case construct cls [(f, v)] of
                Inl e \<Rightarrow> Inl (KnotifyException (Cause e))
              | Inr pusher \<Rightarrow> Inr pusher)"
proof -
  have e: "urlencode [(f, v)] = f @ ''='' @ quote_plus v"
    by (simp add: urlencode_def assms(7))
  show ?thesis
    unfolding e get_pusher_def urlparse_formatted [OF assms(5,1)]
    by (simp add: assms(6,8) parse_qsl_formatted [OF assms(1,2,3,4)] dict_single del: append.simps)
qed

lemma uri_roundtrip:
  assumes "v \<noteq> []" and "utf8_replace v = v"
  shows "get_pusher L (all_pushers L) (format_uri L Webhook_class [(''url'', v)])
           = Inr (Webhook v (PyBool True))"
    and "get_pusher L (all_pushers L) (format_uri L Telegram_class [(''token'', v)])
           = Inr (Telegram v (PyBool True))"
    and "get_pusher L (all_pushers L) (format_uri L Wechat_class [(''sckey'', v)])
           = Inr (Wechat v (PyBool True))"
    and "get_pusher L (all_pushers L) (format_uri L WirePusher_class [(''pid'', v)])
           = Inr (WirePusher v (PyBool True))"
proof -
  have 1: "get_pusher L (all_pushers L) (''knotify://'' @ ''webhook'' @ ''?'' @ urlencode [(''url'', v)])
             = (case construct Webhook_class [(''url'', v)] of
                  Inl e \<Rightarrow> Inl (KnotifyException (Cause e)) | Inr pusher \<Rightarrow> Inr pusher)"
    by (rule get_pusher_formatted [OF field_is_lower(1) _ assms name_is_lower(1) lower_name(1) quote_plus_field(1)])
       (simp_all add: all_pushers_eq)
  have 2: "get_pusher L (all_pushers L) (''knotify://'' @ ''telegram'' @ ''?'' @ urlencode [(''token'', v)])
             = (case construct Telegram_class [(''token'', v)] of
                  Inl e \<Rightarrow> Inl (KnotifyException (Cause e)) | Inr pusher \<Rightarrow> Inr pusher)"
    by (rule get_pusher_formatted [OF field_is_lower(2) _ assms name_is_lower(2) lower_name(2) quote_plus_field(2)])
       (simp_all add: all_pushers_eq)
  have 3: "get_pusher L (all_pushers L) (''knotify://'' @ ''wechat'' @ ''?'' @ urlencode [(''sckey'', v)])
             = (case construct Wechat_class [(''sckey'', v)] of
                  Inl e \<Rightarrow> Inl (KnotifyException (Cause e)) | Inr pusher \<Rightarrow> Inr pusher)"
    by (rule get_pusher_formatted [OF field_is_lower(3) _ assms name_is_lower(3) lower_name(3) quote_plus_field(3)])
       (simp_all add: all_pushers_eq)
  have 4: "get_pusher L (all_pushers L) (''knotify://'' @ ''wirepusher'' @ ''?'' @ urlencode [(''pid'', v)])
             = (case construct WirePusher_class [(''pid'', v)] of
                  Inl e \<Rightarrow> Inl (KnotifyException (Cause e)) | Inr pusher \<Rightarrow> Inr pusher)"
    by (rule get_pusher_formatted [OF field_is_lower(4) _ assms name_is_lower(4) lower_name(4) quote_plus_field(4)])
       (simp_all add: all_pushers_eq)
  show "get_pusher L (all_pushers L) (format_uri L Webhook_class [(''url'', v)])
          = Inr (Webhook v (PyBool True))"
    unfolding format_uri_def get_cls_name_def class_name.simps py_lower_class_names 1
    by (simp add: init_pusher_def)
  show "get_pusher L (all_pushers L) (format_uri L Telegram_class [(''token'', v)])
          = Inr (Telegram v (PyBool True))"
    unfolding format_uri_def get_cls_name_def class_name.simps py_lower_class_names 2
    by (simp add: init_pusher_def)
  show "get_pusher L (all_pushers L) (format_uri L Wechat_class [(''sckey'', v)])
          = Inr (Wechat v (PyBool True))"
    unfolding format_uri_def get_cls_name_def class_name.simps py_lower_class_names 3
    by (simp add: init_pusher_def)
  show "get_pusher L (all_pushers L) (format_uri L WirePusher_class [(''pid'', v)])
          = Inr (WirePusher v (PyBool True))"
    unfolding format_uri_def get_cls_name_def class_name.simps py_lower_class_names 4
    by (simp add: init_pusher_def)
qed

lemma empty_uri: "pusher_uri L (Webhook [] m) = Some ''knotify://webhook?url=''"
  by (simp add: format_uri_def get_cls_name_def py_lower_class_names urlencode_def quote_plus_field
      quote_plus_Nil)

lemma urlparse_empty_url:
  "urlparse L ''knotify://webhook?url='' = Inr \<lparr>scheme = ''knotify'', netloc = ''webhook'', query = ''url=''\<rparr>"
  by code_simp

lemma parse_qsl_empty_url: "parse_qsl ''url='' = []"
  by code_simp

subsection \<open>The query-string parser in closed form\<close>









subsection \<open>Decoding, once the class is found\<close>

lemma get_pusher_found:
  assumes "urlparse L uri = Inr result" and "scheme result = ''knotify''"
    and "reg (py_lower L (netloc result)) = Some cls"
  shows "get_pusher L reg uri =
           (case construct cls (dict (parse_qsl (query result))) of
              Inl e \<Rightarrow> Inl (KnotifyException (Cause e))
            | Inr pusher \<Rightarrow> Inr pusher)"
  using assms by (simp add: get_pusher_def)

text \<open>
  An exception \<open>e\<close> raised by the constructor comes out as \<^verbatim>\<open>KnotifyException(e)\<close>;
  otherwise the object the constructor made is returned, an instance of the registered
  class.
\<close>

lemma get_pusher_wraps:
  assumes "urlparse L uri = Inr result" and "scheme result = ''knotify''"
    and "reg (py_lower L (netloc result)) = Some cls"
    and "params = dict (parse_qsl (query result))"
  shows "construct cls params = Inl e \<Longrightarrow> get_pusher L reg uri = Inl (KnotifyException (Cause e))"
    and "construct cls params = Inr pusher \<Longrightarrow>
           get_pusher L reg uri = Inr pusher \<and> class_of pusher = Some cls"
  using assms by (auto simp: get_pusher_def dest: construct_class)

lemma split_samples:
  "split CHR ''&'' ''url=a%20b&url=c+d%2F'' = [''url=a%20b'', ''url=c+d%2F'']"
  "split CHR ''&'' ''url=a&url='' = [''url=a'', ''url='']"
  "after CHR ''='' ''url=a%20b'' = ''a%20b''" "after CHR ''='' ''url=c+d%2F'' = ''c+d%2F''"
  "fst (split_scheme ''wrongscheme://[webhook?url=abc'') = ''wrongscheme''"
  "fst (split_scheme ''knotify://[nonexistent?x=1'') = ''knotify''"
  "py_lower L ''[nonexistent'' = ''[nonexistent''"
  by code_simp+

section \<open>The claims\<close>

subsection \<open>Decoding: scheme, registry lookup, parameters, failures\<close>

text \<open>
  C3 (amended). \<^verbatim>\<open>get_pusher\<close> raises \<^verbatim>\<open>KnotifyException("Invalid url scheme")\<close> exactly
  when \<^verbatim>\<open>urlparse\<close> accepts the URI and the parsed scheme is not the literal
  \<^verbatim>\<open>knotify\<close>. The registry is arbitrary: the scheme is tested before any lookup.
\<close>

theorem get_pusher_invalid_scheme:
  "(get_pusher L reg uri = Inl (KnotifyException (Message ''Invalid url scheme'')))
     = (\<exists>result. urlparse L uri = Inr result \<and> scheme result \<noteq> ''knotify'')"
proof
  assume g: "get_pusher L reg uri = Inl (KnotifyException (Message ''Invalid url scheme''))"
  show "\<exists>result. urlparse L uri = Inr result \<and> scheme result \<noteq> ''knotify''"
  proof (cases "urlparse L uri")
    case (Inl e)
    with g urlparse_error [OF Inl] show ?thesis by (auto simp: get_pusher_def)
  next
    case (Inr result)
    with g have "scheme result \<noteq> ''knotify''"
      by (auto simp: get_pusher_def split: if_splits option.splits sum.splits)
    with Inr show ?thesis by simp
  qed
next
  assume "\<exists>result. urlparse L uri = Inr result \<and> scheme result \<noteq> ''knotify''"
  then show "get_pusher L reg uri = Inl (KnotifyException (Message ''Invalid url scheme''))"
    by (auto simp: get_pusher_def)
qed

theorem get_pusher_invalid_scheme_witness:
  "\<forall>L. get_pusher L (all_pushers L) ''wrongscheme://webhook?url=abc''
          = Inl (KnotifyException (Message ''Invalid url scheme''))
       \<and> get_pusher L Map.empty ''wrongscheme://webhook?url=abc''
          = Inl (KnotifyException (Message ''Invalid url scheme''))"
  using get_pusher_invalid_scheme [of _ _ "''wrongscheme://webhook?url=abc''"]
  by (simp add: urlparse_samples)

text \<open>
  C3 as stated fails: the URI below has the scheme \<^verbatim>\<open>wrongscheme\<close>, but its netloc has an
  opening bracket without a closing one; \<^verbatim>\<open>urlparse\<close> raises \<^verbatim>\<open>ValueError\<close>, and since
  the call is outside the \<^verbatim>\<open>try\<close>, that is what \<^verbatim>\<open>get_pusher\<close> raises.
\<close>

theorem get_pusher_invalid_scheme_counterexample:
  "fst (split_scheme ''wrongscheme://[webhook?url=abc'') = ''wrongscheme''
   \<and> get_pusher sample_library (all_pushers sample_library) ''wrongscheme://[webhook?url=abc''
       = Inl (ValueError ''Invalid IPv6 URL'')"
  by (simp add: get_pusher_def urlparse_samples split_samples)

text \<open>
  C4 (amended). \<^verbatim>\<open>get_pusher\<close> raises \<^verbatim>\<open>KnotifyException("Invalid class name " + n)\<close>
  exactly when \<^verbatim>\<open>urlparse\<close> accepts the URI, the scheme is \<^verbatim>\<open>knotify\<close>, the netloc is
  \<open>n\<close> and \<^verbatim>\<open>n.lower()\<close> is not a key of the registry: the lookup does not see the case
  of the type name.
\<close>

theorem get_pusher_unknown_backend:
  "(get_pusher L reg uri = Inl (KnotifyException (Message (''Invalid class name '' @ n))))
     = (\<exists>result. urlparse L uri = Inr result \<and> scheme result = ''knotify''
          \<and> netloc result = n \<and> reg (py_lower L n) = None)"
proof
  assume g: "get_pusher L reg uri = Inl (KnotifyException (Message (''Invalid class name '' @ n)))"
  show "\<exists>result. urlparse L uri = Inr result \<and> scheme result = ''knotify''
          \<and> netloc result = n \<and> reg (py_lower L n) = None"
  proof (cases "urlparse L uri")
    case (Inl e)
    with g urlparse_error [OF Inl] show ?thesis by (auto simp: get_pusher_def)
  next
    case (Inr result)
    with g have "scheme result = ''knotify'' \<and> netloc result = n \<and> reg (py_lower L n) = None"
      by (auto simp: get_pusher_def split: if_splits option.splits sum.splits)
    with Inr show ?thesis by simp
  qed
next
  assume "\<exists>result. urlparse L uri = Inr result \<and> scheme result = ''knotify''
            \<and> netloc result = n \<and> reg (py_lower L n) = None"
  then show "get_pusher L reg uri = Inl (KnotifyException (Message (''Invalid class name '' @ n)))"
    by (auto simp: get_pusher_def)
qed

theorem get_pusher_unknown_backend_witness:
  "\<forall>L. get_pusher L (all_pushers L) ''knotify://NonExistent?x=1''
          = Inl (KnotifyException (Message ''Invalid class name NonExistent''))
       \<and> get_pusher L (all_pushers L) ''knotify://WebHook?url=abc''
          \<noteq> Inl (KnotifyException (Message ''Invalid class name WebHook''))"
  using get_pusher_unknown_backend [of _ _ "''knotify://NonExistent?x=1''" "''NonExistent''"]
    get_pusher_unknown_backend [of _ _ "''knotify://WebHook?url=abc''" "''WebHook''"]
  by (simp add: urlparse_samples py_lower_samples all_pushers_eq)

text \<open>
  C4 as stated fails: the URI below has the right scheme and a netloc that is no key of
  the registry, but the netloc has an opening bracket without a closing one;
  \<^verbatim>\<open>urlparse\<close> raises \<^verbatim>\<open>ValueError\<close>, and that is what \<^verbatim>\<open>get_pusher\<close> raises.
\<close>

theorem get_pusher_unknown_backend_counterexample:
  "fst (split_scheme ''knotify://[nonexistent?x=1'') = ''knotify''
   \<and> all_pushers sample_library (py_lower sample_library ''[nonexistent'') = None
   \<and> get_pusher sample_library (all_pushers sample_library) ''knotify://[nonexistent?x=1''
       = Inl (ValueError ''Invalid IPv6 URL'')"
  by (simp add: get_pusher_def urlparse_samples split_samples all_pushers_eq)




text \<open>
  C6 (the code departs from the claim). A class that is not a subclass of
  \<^verbatim>\<open>BasePusher\<close> enters the registry through the unchecked class branch of
  \<^verbatim>\<open>register_pusher\<close> (see C2). A URI naming it passes the scheme test and the registry
  test, its constructor raises nothing, and \<^verbatim>\<open>get_pusher\<close> returns an object that is
  no \<^verbatim>\<open>BasePusher\<close>.
\<close>

theorem get_pusher_returns_non_pusher:
  "register_pusher L (all_pushers L) (Class (Other_class ''Plain'' False (\<lambda>kw. None)))
     = Inr ((all_pushers L)(''plain'' \<mapsto> Other_class ''Plain'' False (\<lambda>kw. None)))
   \<and> urlparse L ''knotify://plain?x=1''
       = Inr \<lparr>scheme = ''knotify'', netloc = ''plain'', query = ''x=1''\<rparr>
   \<and> ((all_pushers L)(''plain'' \<mapsto> Other_class ''Plain'' False (\<lambda>kw. None))) (py_lower L ''plain'')
       = Some (Other_class ''Plain'' False (\<lambda>kw. None))
   \<and> construct (Other_class ''Plain'' False (\<lambda>kw. None)) (dict (parse_qsl ''x=1''))
       = Inr (Instance (Other_class ''Plain'' False (\<lambda>kw. None)) [(''x'', ''1'')])
   \<and> get_pusher L ((all_pushers L)(''plain'' \<mapsto> Other_class ''Plain'' False (\<lambda>kw. None)))
        ''knotify://plain?x=1''
       = Inr (Instance (Other_class ''Plain'' False (\<lambda>kw. None)) [(''x'', ''1'')])
   \<and> \<not> isinstance_BasePusher (Instance (Other_class ''Plain'' False (\<lambda>kw. None)) [(''x'', ''1'')])"
  by (simp add: get_cls_name_def get_pusher_def urlparse_samples py_lower_samples parse_qsl_samples
      dict_samples isinstance_BasePusher_def)

text \<open>
  C10. A URI whose scheme is \<^verbatim>\<open>knotify\<close> in any letter case is parsed as the same URI with
  the scheme in lower case, so \<^verbatim>\<open>get_pusher\<close> gives the same outcome for both, and that
  outcome is never the invalid-scheme error.
\<close>

theorem scheme_case_insensitive:
  assumes "lower s = ''knotify''"
  shows "get_pusher L reg (s @ '':'' @ rest) = get_pusher L reg (''knotify:'' @ rest)
       \<and> get_pusher L reg (s @ '':'' @ rest) \<noteq> Inl (KnotifyException (Message ''Invalid url scheme''))
       \<and> (\<forall>result. urlparse L (s @ '':'' @ rest) = Inr result \<longrightarrow> scheme result = ''knotify'')"
proof -
  have u: "urlparse L (s @ '':'' @ rest) = urlparse L (''knotify:'' @ rest)"
    using urlparse_any_case [OF assms, of L rest] by simp
  have k: "\<And>result. urlparse L (''knotify:'' @ rest) = Inr result \<Longrightarrow> scheme result = ''knotify''"
    using urlparse_knotify_scheme [of L rest] by simp
  have g: "get_pusher L reg (s @ '':'' @ rest) = get_pusher L reg (''knotify:'' @ rest)"
    by (simp only: get_pusher_def u)
  have "get_pusher L reg (''knotify:'' @ rest) \<noteq> Inl (KnotifyException (Message ''Invalid url scheme''))"
    using k
    by (auto simp: get_pusher_def Let_def dest: urlparse_error split: sum.splits option.splits)
  with g u k show ?thesis by simp
qed

theorem scheme_case_insensitive_witness:
  "\<forall>L. lower ''KnOtIfY'' = ''knotify''
       \<and> get_pusher L (all_pushers L) ''KnOtIfY://telegram?token=foo''
          = Inr (Telegram ''foo'' (PyBool True))"
  using scheme_case_insensitive [of "''KnOtIfY''" _ _ "''//telegram?token=foo''"]
  by (simp add: get_pusher_def urlparse_samples lower_samples py_lower_samples all_pushers_eq
      parse_qsl_samples dict_samples init_pusher_def)

subsection \<open>Registration\<close>

text \<open>
  C7. Two registrations under one lower-case type name \<open>n\<close> (each of a class, or of an
  instance of a \<^verbatim>\<open>BasePusher\<close> subclass): both are accepted on any registry, the entry
  for \<open>n\<close> is the first class and then the second, the other entries are untouched, and
  \<^verbatim>\<open>get_pusher\<close> on a URI naming \<open>n\<close> then calls the second class.
\<close>

theorem register_pusher_replaces:
  assumes "register_pusher L Map.empty p1 = Inr [n \<mapsto> c1]"
    and "register_pusher L Map.empty p2 = Inr [n \<mapsto> c2]"
  shows "\<exists>reg1 reg2. register_pusher L reg p1 = Inr reg1 \<and> register_pusher L reg1 p2 = Inr reg2
           \<and> reg1 n = Some c1 \<and> reg2 n = Some c2 \<and> (\<forall>k. k \<noteq> n \<longrightarrow> reg2 k = reg k)
           \<and> (\<forall>M uri result.
                urlparse M uri = Inr result \<and> scheme result = ''knotify''
                  \<and> py_lower M (netloc result) = n \<longrightarrow>
                get_pusher M reg2 uri =
                  (case construct c2 (dict (parse_qsl (query result))) of
                     Inl e \<Rightarrow> Inl (KnotifyException (Cause e))
                   | Inr pusher \<Rightarrow> Inr pusher))"
proof -
  have 1: "register_pusher L reg p1 = Inr (reg ++ [n \<mapsto> c1])"
    by (rule register_pusher_empty [OF assms(1)])
  have 2: "register_pusher L (reg ++ [n \<mapsto> c1]) p2 = Inr ((reg ++ [n \<mapsto> c1]) ++ [n \<mapsto> c2])"
    by (rule register_pusher_empty [OF assms(2)])
  have 3: "(reg ++ [n \<mapsto> c1]) n = Some c1" by simp
  have 4: "((reg ++ [n \<mapsto> c1]) ++ [n \<mapsto> c2]) n = Some c2" by simp
  have 5: "\<forall>k. k \<noteq> n \<longrightarrow> ((reg ++ [n \<mapsto> c1]) ++ [n \<mapsto> c2]) k = reg k" by simp
  have 6: "\<forall>M uri result.
             urlparse M uri = Inr result \<and> scheme result = ''knotify''
               \<and> py_lower M (netloc result) = n \<longrightarrow>
             get_pusher M ((reg ++ [n \<mapsto> c1]) ++ [n \<mapsto> c2]) uri =
               (case construct c2 (dict (parse_qsl (query result))) of
                  Inl e \<Rightarrow> Inl (KnotifyException (Cause e))
                | Inr pusher \<Rightarrow> Inr pusher)"
    by (auto simp: get_pusher_def)
  show ?thesis
    by (intro exI conjI) (rule 1 2 3 4 5 6)+
qed

theorem register_pusher_replaces_witness:
  "\<forall>L. \<exists>reg1 reg2.
     register_pusher L (all_pushers L) (Class (Other_class ''Foo'' True (\<lambda>kw. None))) = Inr reg1
     \<and> register_pusher L reg1 (Instance (Other_class ''FOO'' True (\<lambda>kw. Some (OtherException ''no''))) []) = Inr reg2
     \<and> reg1 ''foo'' = Some (Other_class ''Foo'' True (\<lambda>kw. None))
     \<and> reg2 ''foo'' = Some (Other_class ''FOO'' True (\<lambda>kw. Some (OtherException ''no'')))
     \<and> (\<forall>k. k \<noteq> ''foo'' \<longrightarrow> reg2 k = all_pushers L k)
     \<and> (\<forall>M uri result.
          urlparse M uri = Inr result \<and> scheme result = ''knotify''
            \<and> py_lower M (netloc result) = ''foo'' \<longrightarrow>
          get_pusher M reg2 uri =
            (case construct (Other_class ''FOO'' True (\<lambda>kw. Some (OtherException ''no''))) (dict (parse_qsl (query result))) of
               Inl e \<Rightarrow> Inl (KnotifyException (Cause e))
             | Inr pusher \<Rightarrow> Inr pusher))"
proof
  fix L
  have h1: "register_pusher L Map.empty (Class (Other_class ''Foo'' True (\<lambda>kw. None))) = Inr [''foo'' \<mapsto> (Other_class ''Foo'' True (\<lambda>kw. None))]"
    by (simp add: get_cls_name_def py_lower_samples)
  have h2: "register_pusher L Map.empty (Instance (Other_class ''FOO'' True (\<lambda>kw. Some (OtherException ''no''))) []) = Inr [''foo'' \<mapsto> (Other_class ''FOO'' True (\<lambda>kw. Some (OtherException ''no'')))]"
    by (simp add: get_cls_name_def py_lower_samples isinstance_BasePusher_def)
  show "\<exists>reg1 reg2.
     register_pusher L (all_pushers L) (Class (Other_class ''Foo'' True (\<lambda>kw. None))) = Inr reg1
     \<and> register_pusher L reg1 (Instance (Other_class ''FOO'' True (\<lambda>kw. Some (OtherException ''no''))) []) = Inr reg2
     \<and> reg1 ''foo'' = Some (Other_class ''Foo'' True (\<lambda>kw. None))
     \<and> reg2 ''foo'' = Some (Other_class ''FOO'' True (\<lambda>kw. Some (OtherException ''no'')))
     \<and> (\<forall>k. k \<noteq> ''foo'' \<longrightarrow> reg2 k = all_pushers L k)
     \<and> (\<forall>M uri result.
          urlparse M uri = Inr result \<and> scheme result = ''knotify''
            \<and> py_lower M (netloc result) = ''foo'' \<longrightarrow>
          get_pusher M reg2 uri =
            (case construct (Other_class ''FOO'' True (\<lambda>kw. Some (OtherException ''no''))) (dict (parse_qsl (query result))) of
               Inl e \<Rightarrow> Inl (KnotifyException (Cause e))
             | Inr pusher \<Rightarrow> Inr pusher))"
    by (rule register_pusher_replaces [OF h1 h2])
qed

text \<open>
  C2 (the code departs from the claim). The class branch of \<^verbatim>\<open>register_pusher\<close> tests
  only \<^verbatim>\<open>isinstance(pusher, type)\<close>: a class that is not a subclass of \<^verbatim>\<open>BasePusher\<close> is
  registered without error, and \<^verbatim>\<open>get_pusher\<close> then returns an instance of it, which is
  no \<^verbatim>\<open>BasePusher\<close>.
\<close>

theorem register_pusher_unchecked_class:
  "register_pusher L (all_pushers L) (Class (Other_class ''Plain'' False (\<lambda>kw. None)))
     = Inr ((all_pushers L)(''plain'' \<mapsto> Other_class ''Plain'' False (\<lambda>kw. None)))
   \<and> \<not> subclass_BasePusher (Other_class ''Plain'' False (\<lambda>kw. None))
   \<and> get_pusher L ((all_pushers L)(''plain'' \<mapsto> Other_class ''Plain'' False (\<lambda>kw. None)))
        ''knotify://plain?x=1''
     = Inr (Instance (Other_class ''Plain'' False (\<lambda>kw. None)) [(''x'', ''1'')])
   \<and> \<not> isinstance_BasePusher (Instance (Other_class ''Plain'' False (\<lambda>kw. None)) [(''x'', ''1'')])"
  by (simp add: get_cls_name_def get_pusher_def urlparse_samples py_lower_samples parse_qsl_samples
      dict_samples isinstance_BasePusher_def)

subsection \<open>Pushing\<close>

text \<open>
  C8 (amended). \<^verbatim>\<open>Telegram._push\<close> posts to the endpoint with the token substituted.
  In the JSON body every extra field has the value the caller gave; \<^verbatim>\<open>text\<close> is the
  message and \<^verbatim>\<open>parse_mode\<close> is \<^verbatim>\<open>Markdown\<close> when the extra fields do not name them;
  the body has no other field. (The names \<open>self\<close> and \<open>message\<close> cannot be extra fields:
  they are the method's own parameters.)
\<close>

theorem Telegram_push_body:
  assumes "''self'' \<notin> fst ` set kwargs" and "''message'' \<notin> fst ` set kwargs"
    and "distinct (map fst kwargs)"
  shows "\<exists>body. Telegram_push token message kwargs
                  = Inr (Post (''https://tgbot.lbyczf.com/sendMessage/'' @ token) body)
           \<and> (\<forall>k v. map_of kwargs k = Some v \<longrightarrow> map_of body k = Some v)
           \<and> (''text'' \<notin> fst ` set kwargs \<longrightarrow> map_of body ''text'' = Some message)
           \<and> (''parse_mode'' \<notin> fst ` set kwargs \<longrightarrow> map_of body ''parse_mode'' = Some (PyStr ''Markdown''))
           \<and> (\<forall>k. k \<notin> fst ` set kwargs \<and> k \<noteq> ''text'' \<and> k \<noteq> ''parse_mode'' \<longrightarrow> map_of body k = None)"
proof -
  let ?base = "[(''text'', message), (''parse_mode'', PyStr ''Markdown'')]"
  let ?body = "dict_update ?base kwargs"
  have b: "bind_extra [''self'', ''message''] kwargs = None"
    by (rule bind_extra_self_message [OF assms(1,2)])
  have 1: "Telegram_push token message kwargs
            = Inr (Post (''https://tgbot.lbyczf.com/sendMessage/'' @ token) ?body)"
    by (simp add: Telegram_push_def Telegram_api_def b)
  have n: "\<And>k. k \<notin> fst ` set kwargs \<Longrightarrow> map_of kwargs k = None"
    by (simp add: map_of_eq_None_iff)
  have 2: "\<forall>k v. map_of kwargs k = Some v \<longrightarrow> map_of ?body k = Some v"
    by (simp add: map_of_update_kwargs [OF assms(3)])
  have 3: "''text'' \<notin> fst ` set kwargs \<longrightarrow> map_of ?body ''text'' = Some message"
    by (simp add: map_of_update_kwargs [OF assms(3)] n)
  have 4: "''parse_mode'' \<notin> fst ` set kwargs \<longrightarrow> map_of ?body ''parse_mode'' = Some (PyStr ''Markdown'')"
    by (simp add: map_of_update_kwargs [OF assms(3)] n)
  have 5: "\<forall>k. k \<notin> fst ` set kwargs \<and> k \<noteq> ''text'' \<and> k \<noteq> ''parse_mode'' \<longrightarrow> map_of ?body k = None"
    by (simp add: map_of_update_kwargs [OF assms(3)] n)
  show ?thesis
    by (intro exI conjI) (rule 1 2 3 4 5)+
qed

theorem Telegram_push_body_witness:
  "\<exists>body. Telegram_push ''T'' (PyStr ''hi'') [(''disable_notification'', PyBool True)]
            = Inr (Post ''https://tgbot.lbyczf.com/sendMessage/T'' body)
     \<and> map_of body ''disable_notification'' = Some (PyBool True)
     \<and> map_of body ''text'' = Some (PyStr ''hi'')
     \<and> map_of body ''parse_mode'' = Some (PyStr ''Markdown'')"
  using Telegram_push_body [of "[(''disable_notification'', PyBool True)]" "''T''" "PyStr ''hi''"]
  by auto

text \<open>
  C8 as stated fails: extra fields named \<^verbatim>\<open>parse_mode\<close> and \<^verbatim>\<open>text\<close> replace the
  built-in values, since the body is made by \<^verbatim>\<open>req_body.update(kwargs)\<close>.
\<close>

theorem Telegram_push_override_counterexample:
  "Telegram_push ''T'' (PyStr ''hi'') [(''parse_mode'', PyStr ''HTML''), (''text'', PyStr ''bye'')]
     = Inr (Post ''https://tgbot.lbyczf.com/sendMessage/T''
              [(''text'', PyStr ''bye''), (''parse_mode'', PyStr ''HTML'')])"
  by (simp add: Telegram_push_def Telegram_api_def dict_update_def)

text \<open>
  C9. \<^verbatim>\<open>WirePusher._push\<close> sends a GET to the fixed endpoint. Without an extra field
  \<^verbatim>\<open>title\<close> the request's \<^verbatim>\<open>title\<close> is \<^verbatim>\<open>Knotify Message\<close>; without an extra field
  \<^verbatim>\<open>id\<close> its \<^verbatim>\<open>id\<close> is the instance's \<^verbatim>\<open>pid\<close>; a \<^verbatim>\<open>title\<close> or \<^verbatim>\<open>id\<close> that is given
  is kept; \<^verbatim>\<open>message\<close> is the message. The body builder is the one modelled from the
  spec.
\<close>

theorem WirePusher_push_defaults:
  assumes "''self'' \<notin> fst ` set kwargs" and "''message'' \<notin> fst ` set kwargs"
    and "distinct (map fst kwargs)"
  shows "\<exists>body. WirePusher_push pid message kwargs = Inr (Get ''https://wirepusher.com/send'' body)
           \<and> (''title'' \<notin> fst ` set kwargs \<longrightarrow> map_of body ''title'' = Some (PyStr ''Knotify Message''))
           \<and> (''id'' \<notin> fst ` set kwargs \<longrightarrow> map_of body ''id'' = Some (PyStr pid))
           \<and> (\<forall>v. map_of kwargs ''title'' = Some v \<longrightarrow> map_of body ''title'' = Some v)
           \<and> (\<forall>v. map_of kwargs ''id'' = Some v \<longrightarrow> map_of body ''id'' = Some v)
           \<and> map_of body ''message'' = Some message"
proof -
  let ?kw1 = "setdefault ''id'' (PyStr pid) kwargs"
  let ?kw2 = "setdefault ''title'' (PyStr ''Knotify Message'') ?kw1"
  let ?merged = "dict_update [(''message'', message)] ?kw2"
  let ?body = "filter (\<lambda>(k, v). k \<in> set WirePusher_args) ?merged"
  have b: "bind_extra [''self'', ''message''] kwargs = None"
    by (rule bind_extra_self_message [OF assms(1,2)])
  have d: "distinct (map fst ?kw2)"
    by (intro distinct_setdefault assms(3))
  have m: "\<And>k. map_of ?merged k = (case map_of ?kw2 k of Some v \<Rightarrow> Some v | None \<Rightarrow> map_of [(''message'', message)] k)"
    by (rule map_of_update_kwargs [OF d])
  have keys: "fst ` set ?merged = insert ''message'' (insert ''title'' (insert ''id'' (fst ` set kwargs)))"
  proof -
    have "fst ` set ?merged = dom (map_of ?merged)" by (simp add: dom_map_of_conv_image_fst)
    also have "\<dots> = dom (map_of [(''message'', message)]) \<union> dom (map_of (rev ?kw2))"
      by (simp only: map_of_dict_update dom_map_add Un_commute)
    also have "\<dots> = insert ''message'' (fst ` set ?kw2)"
      by (simp add: dom_map_of_conv_image_fst)
    finally show ?thesis by (simp add: keys_setdefault)
  qed
  have f: "find (\<lambda>name. name \<notin> fst ` set ?merged) WirePusher_mandatory = None"
    unfolding keys by (simp add: WirePusher_mandatory_def)
  have 1: "WirePusher_push pid message kwargs = Inr (Get ''https://wirepusher.com/send'' ?body)"
    by (simp add: WirePusher_push_def b build_body_def f WirePusher_api_def Let_def)
  have bd: "\<And>k. k \<in> set WirePusher_args \<Longrightarrow> map_of ?body k = map_of ?merged k"
    by (simp add: map_of_filter_keys)
  have a: "''title'' \<in> set WirePusher_args" "''id'' \<in> set WirePusher_args" "''message'' \<in> set WirePusher_args"
    by (simp_all add: WirePusher_args_def)
  have n: "\<And>k. k \<notin> fst ` set kwargs \<Longrightarrow> map_of kwargs k = None"
    by (simp add: map_of_eq_None_iff)
  have s: "\<And>k v. map_of kwargs k = Some v \<Longrightarrow> k \<in> fst ` set kwargs"
    by (metis map_of_eq_None_iff option.distinct(1))
  have 2: "''title'' \<notin> fst ` set kwargs \<longrightarrow> map_of ?body ''title'' = Some (PyStr ''Knotify Message'')"
    by (simp add: bd a m map_of_setdefault keys_setdefault)
  have 3: "''id'' \<notin> fst ` set kwargs \<longrightarrow> map_of ?body ''id'' = Some (PyStr pid)"
    by (simp add: bd a m map_of_setdefault keys_setdefault n)
  have 4: "\<forall>v. map_of kwargs ''title'' = Some v \<longrightarrow> map_of ?body ''title'' = Some v"
    using s by (auto simp: bd a m map_of_setdefault keys_setdefault)
  have 5: "\<forall>v. map_of kwargs ''id'' = Some v \<longrightarrow> map_of ?body ''id'' = Some v"
    using s by (auto simp: bd a m map_of_setdefault keys_setdefault)
  have 6: "map_of ?body ''message'' = Some message"
    using assms(2) by (simp add: bd a m map_of_setdefault keys_setdefault n)
  show ?thesis
    by (intro exI conjI) (rule 1 2 3 4 5 6)+
qed

theorem WirePusher_push_defaults_witness:
  "\<exists>body. WirePusher_push ''dev1'' (PyStr ''hi'') [(''type'', PyStr ''alert'')]
            = Inr (Get ''https://wirepusher.com/send'' body)
     \<and> map_of body ''title'' = Some (PyStr ''Knotify Message'')
     \<and> map_of body ''id'' = Some (PyStr ''dev1'')
     \<and> map_of body ''message'' = Some (PyStr ''hi'')"
  using WirePusher_push_defaults [of "[(''type'', PyStr ''alert'')]" "''dev1''" "PyStr ''hi''"]
  by auto

subsection \<open>Encoding, then decoding\<close>

text \<open>
  C1 (the code departs from the claim). A pusher whose identity field is the empty string
  is encoded with an empty value, \<^verbatim>\<open>knotify://webhook?url=\<close>; \<^verbatim>\<open>parse_qsl\<close>, called
  with its defaults, drops a field whose value is empty, so the constructor is called
  without \<^verbatim>\<open>url\<close> and \<^verbatim>\<open>get_pusher\<close> raises instead of returning the pusher. (For a
  non-empty identity field the round trip holds: lemma \<open>uri_roundtrip\<close>.)
\<close>

theorem uri_roundtrip_empty_value:
  "pusher_uri L (Webhook '''' (PyBool True)) = Some ''knotify://webhook?url=''
   \<and> get_pusher L (all_pushers L) ''knotify://webhook?url=''
       = Inl (KnotifyException (Cause (TypeError (missing_argument ''url''))))"
  by (simp add: empty_uri get_pusher_def urlparse_empty_url parse_qsl_empty_url lower_name
      all_pushers_eq init_pusher_def dict_Nil del: pusher_uri.simps)

end
